theory Spec2Isabelle
  imports Main
begin

section \<open>JSON values and JavaScript objects\<close>

text \<open>
  The values that \<open>JSON.parse\<close> gives at the fields of a request body and of a stored
  account: \<open>null\<close>, booleans, numbers, strings, arrays and objects. An object is the
  list of its properties in insertion order. Numbers are the integers (the only
  numbers the server itself writes are millisecond timestamps); fractions, and the
  non-finite values that a numeral too large for a double parses to, are not
  represented. A JavaScript value is a \<open>json option\<close>: \<open>None\<close> is \<open>undefined\<close>, which is
  what reading an absent property gives.
\<close>

datatype json =
    JNull
  | JBool bool
  | JNum int
  | JStr string
  | JArr "json list"
  | JObj "(string \<times> json) list"

type_synonym jsval = "json option"

type_synonym jsobj = "(string \<times> json) list"

text \<open>Property read \<open>a.k\<close>.\<close>

definition field :: "jsobj \<Rightarrow> string \<Rightarrow> jsval" where
  "field a k = map_of a k"

text \<open>
  Property write \<open>a.k = v\<close>: an existing property keeps its place, a new one is added
  at the end.
\<close>

fun set_field :: "string \<Rightarrow> json \<Rightarrow> jsobj \<Rightarrow> jsobj" where
  "set_field k v [] = [(k, v)]"
| "set_field k v (p # ps) = (if fst p = k then (k, v) # ps else p # set_field k v ps)"

text \<open>
  An object literal whose property values may be \<open>undefined\<close>, as \<open>JSON.stringify\<close>
  writes it: properties whose value is \<open>undefined\<close> are left out.
\<close>

fun stringify_props :: "(string \<times> jsval) list \<Rightarrow> jsobj" where
  "stringify_props [] = []"
| "stringify_props ((k, None) # ps) = stringify_props ps"
| "stringify_props ((k, Some v) # ps) = (k, v) # stringify_props ps"

text \<open>JavaScript truthiness, the negation of what \<open>!v\<close> tests.\<close>

fun truthy :: "jsval \<Rightarrow> bool" where
  "truthy None = False"
| "truthy (Some JNull) = False"
| "truthy (Some (JBool b)) = b"
| "truthy (Some (JNum n)) = (n \<noteq> 0)"
| "truthy (Some (JStr s)) = (s \<noteq> [])"
| "truthy (Some (JArr xs)) = True"
| "truthy (Some (JObj ps)) = True"

text \<open>
  \<open>u === v\<close>, where one side was read from the file or from the request body and the
  other comes from another call of \<open>JSON.parse\<close> or is a string the handler computed.
  Primitives are compared by value. Arrays and objects are compared by reference, and
  two values that come from different calls of \<open>JSON.parse\<close> are never the same array
  or object.
\<close>

fun is_object :: "jsval \<Rightarrow> bool" where
  "is_object (Some (JArr xs)) = True"
| "is_object (Some (JObj ps)) = True"
| "is_object v = False"

definition strict_eq :: "jsval \<Rightarrow> jsval \<Rightarrow> bool" where
  "strict_eq u v = (u = v \<and> \<not> is_object u)"

text \<open>
  \<open>Array.prototype.find\<close> is \<^const>\<open>find\<close>. It returns a reference to the element,
  so that a later write to a property of the result changes the array:
  \<open>replace_first P y xs\<close> is the array after the element found by \<open>P\<close> has become \<open>y\<close>.
\<close>

fun replace_first :: "('a \<Rightarrow> bool) \<Rightarrow> 'a \<Rightarrow> 'a list \<Rightarrow> 'a list" where
  "replace_first P y [] = []"
| "replace_first P y (x # xs) = (if P x then y # xs else x # replace_first P y xs)"

text \<open>
  The string of a non-negative integer, as \<open>'acct_' + Date.now()\<close> concatenates it.
\<close>

definition digit_char :: "nat \<Rightarrow> char" where
  "digit_char d = ''0123456789'' ! d"

fun decimal :: "nat \<Rightarrow> string" where
  "decimal n = (if n < 10 then [digit_char n] else decimal (n div 10) @ [digit_char (n mod 10)])"

declare decimal.simps [simp del]

section \<open>The Node.js runtime and the environment of a request\<close>

text \<open>
  The functions of Node's \<open>crypto\<close> module that the server calls, on strings:
  \<open>scrypt p s\<close> is \<open>crypto.scryptSync(p, s, 64).toString('hex')\<close>,
  \<open>md5 p\<close> is \<open>crypto.createHash('md5').update(p).digest('hex')\<close>,
  \<open>sha256 t\<close> is \<open>crypto.createHash('sha256').update(t).digest('hex')\<close>.
  \<open>number_gt_string n s\<close> is the comparison \<open>n > s\<close> of a number with a string, which
  ECMAScript decides after converting the string to a number.
  \<open>number_gt_object n v\<close> is the comparison \<open>n > v\<close> of a number with an array or an
  object, which ECMAScript decides after converting \<open>v\<close> to a primitive; \<open>None\<close> is the
  \<open>TypeError\<close> of that conversion (an object whose own \<open>valueOf\<close> and \<open>toString\<close> are
  not functions).
\<close>

record node =
  scrypt :: "string \<Rightarrow> string \<Rightarrow> string"
  md5 :: "string \<Rightarrow> string"
  sha256 :: "string \<Rightarrow> string"
  number_gt_string :: "int \<Rightarrow> string \<Rightarrow> bool"
  number_gt_object :: "int \<Rightarrow> json \<Rightarrow> bool option"

text \<open>
  What a handler reads from outside while it serves one request: \<open>now\<close> is
  \<open>Date.now()\<close> (milliseconds since the epoch, of a clock not set before it), \<open>iso\<close> is
  \<open>new Date().toISOString()\<close>, \<open>random_hex\<close> is \<open>crypto.randomBytes(n).toString('hex')\<close>.
  No handler calls any of them twice.
\<close>

record env =
  now :: nat
  iso :: string
  random_hex :: string

text \<open>
  \<open>scryptSync\<close> and \<open>Hash.update\<close> accept a string (or a buffer, which no JSON value is)
  and throw a \<open>TypeError\<close> on anything else, \<open>undefined\<close> and \<open>null\<close> included:
  \<open>None\<close> is the throw.
\<close>

definition hashPassword :: "node \<Rightarrow> jsval \<Rightarrow> jsval \<Rightarrow> string option" where
  "hashPassword rt password salt =
     (case password of
        Some (JStr p) \<Rightarrow> (case salt of Some (JStr s) \<Rightarrow> Some (scrypt rt p s) | _ \<Rightarrow> None)
      | _ \<Rightarrow> None)"

definition md5_hex :: "node \<Rightarrow> jsval \<Rightarrow> string option" where
  "md5_hex rt v = (case v of Some (JStr p) \<Rightarrow> Some (md5 rt p) | _ \<Rightarrow> None)"

definition sha256_hex :: "node \<Rightarrow> jsval \<Rightarrow> string option" where
  "sha256_hex rt v = (case v of Some (JStr t) \<Rightarrow> Some (sha256 rt t) | _ \<Rightarrow> None)"

text \<open>
  \<open>Date.now() > v\<close>: \<open>undefined\<close> converts to NaN, \<open>null\<close> to 0, \<open>true\<close> to 1. \<open>None\<close> is
  a throw.
\<close>

definition now_after :: "node \<Rightarrow> nat \<Rightarrow> jsval \<Rightarrow> bool option" where
  "now_after rt n v =
     (case v of
        None \<Rightarrow> Some False
      | Some JNull \<Rightarrow> Some (0 < n)
      | Some (JBool b) \<Rightarrow> Some ((if b then 1 else 0) < n)
      | Some (JNum t) \<Rightarrow> Some (t < int n)
      | Some (JStr s) \<Rightarrow> Some (number_gt_string rt (int n) s)
      | Some (JArr xs) \<Rightarrow> number_gt_object rt (int n) (JArr xs)
      | Some (JObj ps) \<Rightarrow> number_gt_object rt (int n) (JObj ps))"

section \<open>The account store and the responses\<close>

text \<open>
  The content of \<open>database/accounts.json\<close>: \<open>None\<close> when \<open>readJSON\<close> returns \<open>null\<close>
  (the file is missing or does not parse), otherwise the array of account objects.
\<close>

type_synonym db = "jsobj list option"

text \<open>\<open>readJSON('accounts.json') || []\<close>\<close>

definition read_accounts :: "db \<Rightarrow> jsobj list" where
  "read_accounts d = (case d of None \<Rightarrow> [] | Some accounts \<Rightarrow> accounts)"

definition writeJSON :: "jsobj list \<Rightarrow> db" where
  "writeJSON accounts = Some accounts"

text \<open>
  A response is its status and its body. \<open>Json\<close> and \<open>JsonArray\<close> are bodies produced by
  \<open>JSON.stringify\<close> of an object and of an array of objects, \<open>Text\<close> is a string sent
  as it is.
\<close>

datatype body = Text string | Json jsobj | JsonArray "jsobj list"

record response =
  status :: nat
  body :: body

text \<open>\<open>res.writeHead(code).end(JSON.stringify({error: msg}))\<close>\<close>

definition error_json :: "nat \<Rightarrow> string \<Rightarrow> response" where
  "error_json code msg = \<lparr>status = code, body = Json [(''error'', JStr msg)]\<rparr>"

definition secret_fields :: "string list" where
  "secret_fields = [''passwordHash'', ''passwordSalt'', ''resetTokenHash'', ''resetTokenExpiry'']"

text \<open>
  \<open>(({passwordHash,passwordSalt,resetTokenHash,resetTokenExpiry,...rest}) => rest)(acct)\<close>
\<close>

definition public_view :: "jsobj \<Rightarrow> jsobj" where
  "public_view a = filter (\<lambda>p. fst p \<notin> set secret_fields) a"

definition sanitizeAccountsForPublic :: "jsobj list option \<Rightarrow> jsobj list" where
  "sanitizeAccountsForPublic accounts =
     map public_view (case accounts of None \<Rightarrow> [] | Some xs \<Rightarrow> xs)"

section \<open>The handlers\<close>

text \<open>
  Every POST handler starts from \<open>getRequestData(req)\<close>. Its outcome is the handler's
  last argument: \<open>None\<close> when the promise rejects (the body is not empty and
  \<open>JSON.parse\<close> throws on it), \<open>Some b\<close> when it resolves to the object \<open>b\<close>; an empty
  body resolves to \<open>{}\<close>, and a body that parses to something other than an object has
  none of the fields, like \<open>{}\<close>. An exception thrown inside the \<open>then\<close> callback ends
  in the same \<open>catch\<close> as a rejection.
\<close>

text \<open>\<open>GET /api/accounts\<close>\<close>

definition listAccounts :: "db \<Rightarrow> response" where
  "listAccounts d =
     \<lparr>status = 200, body = JsonArray (sanitizeAccountsForPublic (Some (read_accounts d)))\<rparr>"

text \<open>The \<open>accounts\<close> event of \<open>/sse/updates\<close>, from the parsed content of the file.\<close>

definition sse_accounts_data :: "jsobj list option \<Rightarrow> body" where
  "sse_accounts_data data = JsonArray (sanitizeAccountsForPublic data)"

text \<open>\<open>POST /api/accounts\<close>\<close>

definition signup :: "node \<Rightarrow> env \<Rightarrow> db \<Rightarrow> jsobj option \<Rightarrow> db \<times> response" where
  "signup rt e d req =
     (case req of
        None \<Rightarrow> (d, \<lparr>status = 400, body = Text ''invalid body''\<rparr>)
      | Some b \<Rightarrow>
          let name = field b ''name'';
              email = field b ''email'';
              password = field b ''password'';
              role = (case field b ''role'' of None \<Rightarrow> Some (JStr ''user'') | Some r \<Rightarrow> Some r)
          in
          if \<not> truthy email \<or> \<not> truthy password
          then (d, error_json 400 ''email and password required'')
          else
            let accounts = read_accounts d in
            if find (\<lambda>a. strict_eq (field a ''email'') email) accounts \<noteq> None
            then (d, error_json 409 ''email exists'')
            else
              let salt = random_hex e in
              (case hashPassword rt password (Some (JStr salt)) of
                 None \<Rightarrow> (d, \<lparr>status = 400, body = Text ''invalid body''\<rparr>)
               | Some passwordHash \<Rightarrow>
                   let ident = ''acct_'' @ decimal (now e);
                       acct = stringify_props
                         [(''id'', Some (JStr ident)), (''name'', name), (''email'', email),
                          (''role'', role), (''createdAt'', Some (JStr (iso e))),
                          (''passwordHash'', Some (JStr passwordHash)),
                          (''passwordSalt'', Some (JStr salt)),
                          (''resetTokenHash'', Some JNull), (''resetTokenExpiry'', Some JNull)]
                   in
                   (writeJSON (accounts @ [acct]),
                    \<lparr>status = 201,
                     body = Json (stringify_props
                       [(''id'', field acct ''id''), (''email'', field acct ''email''),
                        (''name'', field acct ''name''), (''createdAt'', field acct ''createdAt''),
                        (''role'', field acct ''role'')])\<rparr>)))"

text \<open>\<open>POST /api/accounts/login\<close>\<close>

definition login :: "node \<Rightarrow> env \<Rightarrow> db \<Rightarrow> jsobj option \<Rightarrow> db \<times> response" where
  "login rt e d req =
     (case req of
        None \<Rightarrow> (d, error_json 400 ''invalid body'')
      | Some b \<Rightarrow>
          let email = field b ''email'';
              password = field b ''password''
          in
          if \<not> truthy email \<or> \<not> truthy password
          then (d, error_json 400 ''email and password required'')
          else
            let accounts = read_accounts d in
            (case find (\<lambda>a. strict_eq (field a ''email'') email) accounts of
               None \<Rightarrow> (d, error_json 401 ''invalid credentials'')
             | Some acct \<Rightarrow>
                 (case hashPassword rt password (field acct ''passwordSalt'') of
                    None \<Rightarrow> (d, error_json 400 ''invalid body'')
                  | Some scryptHash \<Rightarrow>
                      if Some (JStr scryptHash) = field acct ''passwordHash''
                      then (d, \<lparr>status = 200, body = Json (public_view acct)\<rparr>)
                      else
                        (case md5_hex rt password of
                           None \<Rightarrow> (d, error_json 401 ''invalid credentials'')
                         | Some legacy \<Rightarrow>
                             if Some (JStr legacy) = field acct ''passwordHash''
                             then
                               let newSalt = random_hex e;
                                   acct1 = set_field ''passwordSalt'' (JStr newSalt) acct
                               in
                               (case hashPassword rt password (Some (JStr newSalt)) of
                                  None \<Rightarrow> (d, \<lparr>status = 200, body = Json (public_view acct1)\<rparr>)
                                | Some newHash \<Rightarrow>
                                    let acct2 = set_field ''passwordHash'' (JStr newHash) acct1 in
                                    (writeJSON
                                       (replace_first (\<lambda>a. strict_eq (field a ''email'') email) acct2 accounts),
                                     \<lparr>status = 200, body = Json (public_view acct2)\<rparr>))
                             else (d, error_json 401 ''invalid credentials'')))))"

text \<open>\<open>GET /api/account?id=\<close>, from the value of the query parameter (\<open>None\<close> is \<open>null\<close>).\<close>

definition getById :: "db \<Rightarrow> string option \<Rightarrow> response" where
  "getById d q =
     (case q of
        None \<Rightarrow> error_json 400 ''id required''
      | Some ident \<Rightarrow>
          if ident = [] then error_json 400 ''id required''
          else
            (case find (\<lambda>a. field a ''id'' = Some (JStr ident)) (read_accounts d) of
               None \<Rightarrow> error_json 404 ''not found''
             | Some acct \<Rightarrow> \<lparr>status = 200, body = Json (public_view acct)\<rparr>))"

text \<open>\<open>POST /api/accounts/update\<close>\<close>

definition update_account :: "db \<Rightarrow> jsobj option \<Rightarrow> db \<times> response" where
  "update_account d req =
     (case req of
        None \<Rightarrow> (d, error_json 400 ''invalid body'')
      | Some b \<Rightarrow>
          let ident = field b ''id'';
              name = field b ''name'';
              description = field b ''description''
          in
          if \<not> truthy ident then (d, error_json 400 ''id required'')
          else
            let accounts = read_accounts d in
            (case find (\<lambda>a. strict_eq (field a ''id'') ident) accounts of
               None \<Rightarrow> (d, error_json 404 ''not found'')
             | Some acct \<Rightarrow>
                 let acct1 = (case name of Some (JStr s) \<Rightarrow> set_field ''name'' (JStr s) acct
                                | _ \<Rightarrow> acct);
                     acct2 = (case description of
                                Some (JStr s) \<Rightarrow> set_field ''description'' (JStr s) acct1
                              | _ \<Rightarrow> acct1)
                 in
                 (writeJSON (replace_first (\<lambda>a. strict_eq (field a ''id'') ident) acct2 accounts),
                  \<lparr>status = 200,
                   body = Json (stringify_props
                     [(''message'', Some (JStr ''updated'')), (''id'', field acct2 ''id''),
                      (''name'', field acct2 ''name''),
                      (''description'', field acct2 ''description'')])\<rparr>)))"

text \<open>\<open>POST /api/accounts/request-reset\<close>\<close>

definition requestReset :: "node \<Rightarrow> env \<Rightarrow> db \<Rightarrow> jsobj option \<Rightarrow> db \<times> response" where
  "requestReset rt e d req =
     (case req of
        None \<Rightarrow> (d, error_json 400 ''invalid body'')
      | Some b \<Rightarrow>
          let email = field b ''email'' in
          if \<not> truthy email then (d, error_json 400 ''email required'')
          else
            let accounts = read_accounts d in
            (case find (\<lambda>a. strict_eq (field a ''email'') email) accounts of
               None \<Rightarrow> (d, error_json 404 ''not found'')
             | Some acct \<Rightarrow>
                 let token = random_hex e;
                     tokenHash = sha256 rt token;
                     acct1 = set_field ''resetTokenHash'' (JStr tokenHash) acct;
                     acct2 = set_field ''resetTokenExpiry'' (JNum (int (now e) + 1000 * 60 * 60)) acct1
                 in
                 (writeJSON (replace_first (\<lambda>a. strict_eq (field a ''email'') email) acct2 accounts),
                  \<lparr>status = 200,
                   body = Json [(''message'', JStr ''reset token generated (demo)''),
                                (''token'', JStr token)]\<rparr>)))"

text \<open>\<open>POST /api/accounts/reset\<close>\<close>

definition completeReset :: "node \<Rightarrow> env \<Rightarrow> db \<Rightarrow> jsobj option \<Rightarrow> db \<times> response" where
  "completeReset rt e d req =
     (case req of
        None \<Rightarrow> (d, error_json 400 ''invalid body'')
      | Some b \<Rightarrow>
          let email = field b ''email'';
              token = field b ''token'';
              newPassword = field b ''newPassword''
          in
          if \<not> truthy email \<or> \<not> truthy token \<or> \<not> truthy newPassword
          then (d, error_json 400 ''email,token,newPassword required'')
          else
            let accounts = read_accounts d in
            (case find (\<lambda>a. strict_eq (field a ''email'') email) accounts of
               None \<Rightarrow> (d, error_json 400 ''no reset requested'')
             | Some acct \<Rightarrow>
                 if \<not> truthy (field acct ''resetTokenHash'')
                    \<or> \<not> truthy (field acct ''resetTokenExpiry'')
                 then (d, error_json 400 ''no reset requested'')
                 else
                   (case now_after rt (now e) (field acct ''resetTokenExpiry'') of
                      None \<Rightarrow> (d, error_json 400 ''invalid body'')
                    | Some late \<Rightarrow>
                   if late
                   then (d, error_json 400 ''token expired'')
                   else
                   (case sha256_hex rt token of
                      None \<Rightarrow> (d, error_json 400 ''invalid body'')
                    | Some tokenHash \<Rightarrow>
                        if Some (JStr tokenHash) \<noteq> field acct ''resetTokenHash''
                        then (d, error_json 400 ''invalid token'')
                        else
                          let salt = random_hex e in
                          (case hashPassword rt newPassword (Some (JStr salt)) of
                             None \<Rightarrow> (d, error_json 400 ''invalid body'')
                           | Some newHash \<Rightarrow>
                               let acct1 = set_field ''passwordSalt'' (JStr salt) acct;
                                   acct2 = set_field ''passwordHash'' (JStr newHash) acct1;
                                   acct3 = set_field ''resetTokenHash'' JNull acct2;
                                   acct4 = set_field ''resetTokenExpiry'' JNull acct3
                               in
                               (writeJSON
                                  (replace_first (\<lambda>a. strict_eq (field a ''email'') email)
                                     acct4 accounts),
                                \<lparr>status = 200,
                                 body = Json [(''message'', JStr ''password updated'')]\<rparr>))))))"

text \<open>
  The server's dispatch on method and path, for the routes that write accounts, and a
  run of the server over a sequence of requests, each with the environment it is
  served in.
\<close>

datatype request =
    Signup "jsobj option"
  | Login "jsobj option"
  | Update "jsobj option"
  | RequestReset "jsobj option"
  | CompleteReset "jsobj option"

fun handle :: "node \<Rightarrow> env \<Rightarrow> request \<Rightarrow> db \<Rightarrow> db \<times> response" where
  "handle rt e (Signup req) d = signup rt e d req"
| "handle rt e (Login req) d = login rt e d req"
| "handle rt e (Update req) d = update_account d req"
| "handle rt e (RequestReset req) d = requestReset rt e d req"
| "handle rt e (CompleteReset req) d = completeReset rt e d req"

fun run :: "node \<Rightarrow> (env \<times> request) list \<Rightarrow> db \<Rightarrow> db" where
  "run rt [] d = d"
| "run rt (er # rs) d = run rt rs (fst (handle rt (fst er) (snd er) d))"

section \<open>Vocabulary of the properties\<close>

text \<open>The value of a property of a response body that is one JSON object.\<close>

definition body_field :: "body \<Rightarrow> string \<Rightarrow> jsval" where
  "body_field b k = (case b of Json a \<Rightarrow> field a k | _ \<Rightarrow> None)"

text \<open>An object exposes a secret when one of the four credential fields is a key of it.\<close>

definition exposes_secret :: "jsobj \<Rightarrow> bool" where
  "exposes_secret a = (\<exists>k \<in> set secret_fields. k \<in> set (map fst a))"

fun body_objects :: "body \<Rightarrow> jsobj list" where
  "body_objects (Text s) = []"
| "body_objects (Json a) = [a]"
| "body_objects (JsonArray xs) = xs"

definition leaks :: "body \<Rightarrow> bool" where
  "leaks b = (\<exists>a \<in> set (body_objects b). exposes_secret a)"

text \<open>The ids of the stored accounts, in order.\<close>

definition account_ids :: "db \<Rightarrow> jsval list" where
  "account_ids d = map (\<lambda>a. field a ''id'') (read_accounts d)"

text \<open>
  A reset field is unset when it is \<open>null\<close> or absent; the two reset fields of an
  account are paired when both are unset or both are set.
\<close>

definition unset :: "jsval \<Rightarrow> bool" where
  "unset v = (v = None \<or> v = Some JNull)"

definition reset_paired :: "jsobj \<Rightarrow> bool" where
  "reset_paired a = (unset (field a ''resetTokenHash'') = unset (field a ''resetTokenExpiry''))"

section \<open>A runtime and requests to run the handlers on\<close>

text \<open>
  Digest functions that keep their arguments readable, and an environment with a given
  clock reading and random string.
\<close>

definition demo_node :: node where
  "demo_node = \<lparr>scrypt = (\<lambda>p s. ''scrypt:'' @ s @ '':'' @ p), md5 = (\<lambda>p. ''md5:'' @ p),
     sha256 = (\<lambda>t. ''sha256:'' @ t), number_gt_string = (\<lambda>n s. False),
     number_gt_object = (\<lambda>n v. Some False)\<rparr>"

definition demo_env :: "nat \<Rightarrow> string \<Rightarrow> env" where
  "demo_env t r = \<lparr>now = t, iso = ''2026-01-01T00:00:00.000Z'', random_hex = r\<rparr>"

definition alice :: jsobj where
  "alice = [(''email'', JStr ''a@x.com''), (''password'', JStr ''p1'')]"

text \<open>The account that signing \<open>alice\<close> up at clock 1700000000000 with salt \<open>5a\<close> stores.\<close>

definition alice_account :: jsobj where
  "alice_account =
     [(''id'', JStr ''acct_1700000000000''), (''email'', JStr ''a@x.com''),
      (''role'', JStr ''user''), (''createdAt'', JStr ''2026-01-01T00:00:00.000Z''),
      (''passwordHash'', JStr ''scrypt:5a:p1''), (''passwordSalt'', JStr ''5a''),
      (''resetTokenHash'', JNull), (''resetTokenExpiry'', JNull)]"


definition alice_email :: jsobj where
  "alice_email = [(''email'', JStr ''a@x.com'')]"

definition alice_reset :: "string \<Rightarrow> jsobj" where
  "alice_reset tok =
     [(''email'', JStr ''a@x.com''), (''token'', JStr tok), (''newPassword'', JStr ''p3'')]"

text \<open>
  The account of \<open>alice\<close> while a reset is pending for the token \<open>tok\<close>, and after the
  reset has been completed with salt \<open>8d\<close>.
\<close>

definition alice_pending :: "string \<Rightarrow> int \<Rightarrow> jsobj" where
  "alice_pending tok expiry =
     [(''id'', JStr ''acct_1700000000000''), (''email'', JStr ''a@x.com''),
      (''role'', JStr ''user''), (''createdAt'', JStr ''2026-01-01T00:00:00.000Z''),
      (''passwordHash'', JStr ''scrypt:5a:p1''), (''passwordSalt'', JStr ''5a''),
      (''resetTokenHash'', JStr (''sha256:'' @ tok)), (''resetTokenExpiry'', JNum expiry)]"

definition alice_renewed :: jsobj where
  "alice_renewed =
     [(''id'', JStr ''acct_1700000000000''), (''email'', JStr ''a@x.com''),
      (''role'', JStr ''user''), (''createdAt'', JStr ''2026-01-01T00:00:00.000Z''),
      (''passwordHash'', JStr ''scrypt:8d:p3''), (''passwordSalt'', JStr ''8d''),
      (''resetTokenHash'', JNull), (''resetTokenExpiry'', JNull)]"

definition bob :: jsobj where
  "bob = [(''name'', JStr ''Bob''), (''email'', JStr ''b@x.com''), (''password'', JStr ''p2'')]"

definition bob_account :: "string \<Rightarrow> jsobj" where
  "bob_account ident =
     [(''id'', JStr ident), (''name'', JStr ''Bob''), (''email'', JStr ''b@x.com''),
      (''role'', JStr ''user''), (''createdAt'', JStr ''2026-01-01T00:00:00.000Z''),
      (''passwordHash'', JStr ''scrypt:7c:p2''), (''passwordSalt'', JStr ''7c''),
      (''resetTokenHash'', JNull), (''resetTokenExpiry'', JNull)]"

definition credentials :: "json \<Rightarrow> json \<Rightarrow> jsobj" where
  "credentials m p = [(''email'', m), (''password'', p)]"

text \<open>
  Accounts that hold the unsalted digest of the password \<open>p1\<close>: one as an unsalted scheme
  leaves it, with no salt, and one that has a salt string.
\<close>

definition legacy_account :: jsobj where
  "legacy_account = [(''id'', JStr ''acct_1''), (''email'', JStr ''old@x.com''),
     (''passwordHash'', JStr ''md5:p1'')]"

definition salted_legacy_account :: jsobj where
  "salted_legacy_account = [(''id'', JStr ''acct_2''), (''email'', JStr ''old@x.com''),
     (''passwordHash'', JStr ''md5:p1''), (''passwordSalt'', JStr ''00'')]"

definition upgraded_legacy_account :: jsobj where
  "upgraded_legacy_account = [(''id'', JStr ''acct_2''), (''email'', JStr ''old@x.com''),
     (''passwordHash'', JStr ''scrypt:6b:p1''), (''passwordSalt'', JStr ''6b'')]"

text \<open>
  The account that a signup with the array \<open>["a@x.com"]\<close> as email stores at clock
  1700000000000 with salt \<open>5a\<close>.
\<close>

definition array_email_account :: jsobj where
  "array_email_account =
     [(''id'', JStr ''acct_1700000000000''), (''email'', JArr [JStr ''a@x.com'']),
      (''role'', JStr ''user''), (''createdAt'', JStr ''2026-01-01T00:00:00.000Z''),
      (''passwordHash'', JStr ''scrypt:5a:p1''), (''passwordSalt'', JStr ''5a''),
      (''resetTokenHash'', JNull), (''resetTokenExpiry'', JNull)]"

section \<open>Objects, arrays and decimal strings\<close>

lemma field_set_field: "field (set_field k v a) k' = (if k' = k then Some v else field a k')"
  by (induction a) (auto simp: field_def)

lemma find_SomeD: "find P xs = Some a \<Longrightarrow> a \<in> set xs \<and> P a"
  by (induction xs) (auto split: if_splits)

lemma find_replace_first:
  "find P xs = Some a \<Longrightarrow> P y \<Longrightarrow> find P (replace_first P y xs) = Some y"
  by (induction xs) (auto split: if_splits)

lemma set_replace_first: "set (replace_first P y xs) \<subseteq> insert y (set xs)"
  by (induction xs) auto

lemma find_append_last:
  "find P xs = None \<Longrightarrow> find P (xs @ [a]) = (if P a then Some a else None)"
  by (induction xs) (auto split: if_splits)

text \<open>After the write of an array in which the element found by \<open>P\<close> has become \<open>y\<close>.\<close>

lemma find_written:
  assumes "find P (read_accounts d) = Some a" and "P y"
    and "d' = Some (replace_first P y (read_accounts d))"
  shows "find P (read_accounts d') = Some y"
proof -
  have "read_accounts d' = replace_first P y (read_accounts d)"
    unfolding assms(3) by (simp add: read_accounts_def)
  then show ?thesis
    using find_replace_first [OF assms(1), of y] assms(2) by simp
qed

lemma keys_stringify_props: "set (map fst (stringify_props ps)) \<subseteq> set (map fst ps)"
  by (induction ps rule: stringify_props.induct) auto

lemma field_stringify_props:
  "distinct (map fst ps) \<Longrightarrow>
   field (stringify_props ps) k = (case map_of ps k of None \<Rightarrow> None | Some v \<Rightarrow> v)"
proof (induction ps rule: stringify_props.induct)
  case 1
  then show ?case by (simp add: field_def)
next
  case (2 k' ps)
  then have "k' \<notin> fst ` set ps" by simp
  then have "k' \<notin> fst ` set (stringify_props ps)"
    using keys_stringify_props [of ps] by auto
  then have "field (stringify_props ps) k' = None"
    by (simp add: field_def map_of_eq_None_iff)
  with 2 show ?case by (auto simp: field_def)
next
  case (3 k' v ps)
  then show ?case by (auto simp: field_def)
qed

lemma decimal_example: "decimal 1700000000000 = ''1700000000000''"
  by (simp add: decimal.simps digit_char_def)

lemma digit_char_inj: "a < 10 \<Longrightarrow> b < 10 \<Longrightarrow> digit_char a = digit_char b \<Longrightarrow> a = b"
proof -
  have e: "n < 10 \<Longrightarrow> n \<in> {0, 1, 2, 3, 4, 5, 6, 7, 8, 9}" for n :: nat
    by auto
  assume "a < 10" "b < 10" "digit_char a = digit_char b"
  with e [of a] e [of b] show ?thesis
    unfolding digit_char_def by auto
qed

lemma decimal_not_Nil: "decimal n \<noteq> []"
  by (subst decimal.simps) simp

text \<open>Different clock readings print as different strings.\<close>

lemma decimal_inj: "decimal n = decimal m \<Longrightarrow> n = m"
proof (induction n arbitrary: m rule: decimal.induct)
  case (1 n)
  show ?case
  proof (cases "n < 10")
    case True
    show ?thesis
    proof (cases "m < 10")
      case m: True
      with True 1(2) show ?thesis
        by (simp add: decimal.simps [of n] decimal.simps [of m] digit_char_inj)
    next
      case False
      with True 1(2) show ?thesis
        using decimal_not_Nil [of "m div 10"]
        by (simp add: decimal.simps [of n] decimal.simps [of m])
    qed
  next
    case False
    show ?thesis
    proof (cases "m < 10")
      case True
      with False 1(2) show ?thesis
        using decimal_not_Nil [of "n div 10"]
        by (simp add: decimal.simps [of n] decimal.simps [of m])
    next
      case m: False
      with False 1(2) have "decimal (n div 10) = decimal (m div 10)"
        and "digit_char (n mod 10) = digit_char (m mod 10)"
        by (simp_all add: decimal.simps [of n] decimal.simps [of m])
      then have "n div 10 = m div 10" and "n mod 10 = m mod 10"
        using 1(1) [OF False] by (simp_all add: digit_char_inj)
      then show ?thesis
        by (metis div_mult_mod_eq)
    qed
  qed
qed

section \<open>The example store and requests\<close>

lemma demo_env_sel:
  "now (demo_env t r) = t" "random_hex (demo_env t r) = r"
  by (simp_all add: demo_env_def)

lemma field_credentials:
  "field (credentials m p) ''email'' = Some m"
  "field (credentials m p) ''password'' = Some p"
  by (simp_all add: credentials_def field_def)

lemma demo_find:
  "find (\<lambda>a. strict_eq (field a ''email'') (Some (JStr ''a@x.com''))) (read_accounts (Some [alice_account]))
     = Some alice_account"
  "find (\<lambda>a. strict_eq (field a ''email'') (Some (JStr ''a@x.com'')))
     (read_accounts (Some [alice_pending tok expiry])) = Some (alice_pending tok expiry)"
  "find (\<lambda>a. strict_eq (field a ''email'') (Some (JStr ''nobody@x.com''))) (read_accounts (Some [alice_account]))
     = None"
  by (simp_all add: read_accounts_def strict_eq_def alice_account_def alice_pending_def field_def)

lemma demo_ids:
  "account_ids (Some [alice_account]) = [Some (JStr ''acct_1700000000000'')]"
  "account_ids (Some [alice_account, bob_account i])
     = [Some (JStr ''acct_1700000000000''), Some (JStr i)]"
  by (simp_all add: account_ids_def read_accounts_def strict_eq_def alice_account_def bob_account_def field_def)

lemma alice_signup:
  "signup demo_node (demo_env 1700000000000 ''5a'') None (Some alice) =
    (Some [alice_account],
     \<lparr>status = 201, body = Json [(''id'', JStr ''acct_1700000000000''), (''email'', JStr ''a@x.com''),
        (''createdAt'', JStr ''2026-01-01T00:00:00.000Z''), (''role'', JStr ''user'')]\<rparr>)"
  by (simp add: signup_def Let_def alice_def alice_account_def demo_node_def demo_env_def
      field_def read_accounts_def strict_eq_def hashPassword_def writeJSON_def decimal_example)

lemma bob_signup_same_clock:
  "signup demo_node (demo_env 1700000000000 ''7c'') (Some [alice_account]) (Some bob) =
    (Some [alice_account, bob_account ''acct_1700000000000''],
     \<lparr>status = 201, body = Json [(''id'', JStr ''acct_1700000000000''), (''email'', JStr ''b@x.com''),
        (''name'', JStr ''Bob''), (''createdAt'', JStr ''2026-01-01T00:00:00.000Z''),
        (''role'', JStr ''user'')]\<rparr>)"
  by (simp add: signup_def Let_def bob_def bob_account_def alice_account_def demo_node_def
      demo_env_def field_def read_accounts_def strict_eq_def hashPassword_def writeJSON_def decimal_example)

lemma bob_signup_later:
  "signup demo_node (demo_env 1700000000001 ''7c'') (Some [alice_account]) (Some bob) =
    (Some [alice_account, bob_account ''acct_1700000000001''],
     \<lparr>status = 201, body = Json [(''id'', JStr ''acct_1700000000001''), (''email'', JStr ''b@x.com''),
        (''name'', JStr ''Bob''), (''createdAt'', JStr ''2026-01-01T00:00:00.000Z''),
        (''role'', JStr ''user'')]\<rparr>)"
  by (simp add: signup_def Let_def bob_def bob_account_def alice_account_def demo_node_def
      demo_env_def field_def read_accounts_def strict_eq_def hashPassword_def writeJSON_def decimal.simps
      digit_char_def)

lemma alice_request_1:
  "requestReset demo_node (demo_env 1700000000000 ''tok1'') (Some [alice_account]) (Some alice_email)
    = (Some [alice_pending ''tok1'' 1700003600000],
       \<lparr>status = 200, body = Json [(''message'', JStr ''reset token generated (demo)''),
                                 (''token'', JStr ''tok1'')]\<rparr>)"
  by (simp add: requestReset_def Let_def alice_email_def alice_account_def alice_pending_def
      demo_node_def demo_env_def field_def read_accounts_def strict_eq_def writeJSON_def)

lemma alice_request_2:
  "requestReset demo_node (demo_env 1700000001000 ''tok2'')
      (Some [alice_pending ''tok1'' 1700003600000]) (Some alice_email)
    = (Some [alice_pending ''tok2'' 1700003601000],
       \<lparr>status = 200, body = Json [(''message'', JStr ''reset token generated (demo)''),
                                 (''token'', JStr ''tok2'')]\<rparr>)"
  by (simp add: requestReset_def Let_def alice_email_def alice_pending_def
      demo_node_def demo_env_def field_def read_accounts_def strict_eq_def writeJSON_def)

lemma alice_complete:
  "completeReset demo_node (demo_env 1700000002000 ''8d'')
      (Some [alice_pending ''tok1'' 1700003600000]) (Some (alice_reset ''tok1''))
    = (Some [alice_renewed],
       \<lparr>status = 200, body = Json [(''message'', JStr ''password updated'')]\<rparr>)"
  by (simp add: completeReset_def Let_def alice_reset_def alice_pending_def alice_renewed_def
      now_after_def sha256_hex_def hashPassword_def
      demo_node_def demo_env_def field_def read_accounts_def strict_eq_def writeJSON_def)

lemma legacy_upgrade_run:
  "login demo_node (demo_env 1700000000500 ''6b'') (Some [salted_legacy_account])
      (Some (credentials (JStr ''old@x.com'') (JStr ''p1'')))
     = (Some [upgraded_legacy_account],
        \<lparr>status = 200, body = Json [(''id'', JStr ''acct_2''), (''email'', JStr ''old@x.com'')]\<rparr>)"
  by (simp add: login_def Let_def credentials_def salted_legacy_account_def
      upgraded_legacy_account_def demo_node_def
      demo_env_def field_def read_accounts_def strict_eq_def hashPassword_def md5_hex_def writeJSON_def
      public_view_def secret_fields_def)

section \<open>Public views\<close>

lemma public_view_hides: "\<not> exposes_secret (public_view a)"
  by (auto simp: exposes_secret_def public_view_def)

lemma field_public_view:
  "field (public_view a) k = (if k \<in> set secret_fields then None else field a k)"
  unfolding field_def public_view_def by (induction a) auto

lemma leaks_simps:
  "leaks (Text s) = False"
  "leaks (Json a) = exposes_secret a"
  "leaks (JsonArray xs) = (\<exists>a \<in> set xs. exposes_secret a)"
  by (simp_all add: leaks_def)

lemma error_json_no_leak: "\<not> leaks (body (error_json c m))"
  by (simp add: leaks_simps error_json_def exposes_secret_def secret_fields_def)

lemma signup_no_leak: "\<not> leaks (body (snd (signup rt e d req)))"
proof -
  have k: "\<not> exposes_secret (stringify_props
       [(''id'', a), (''email'', b), (''name'', c), (''createdAt'', x), (''role'', y)])" for a b c x y
    using keys_stringify_props
      [of "[(''id'', a), (''email'', b), (''name'', c), (''createdAt'', x), (''role'', y)]"]
    by (auto simp: exposes_secret_def secret_fields_def)
  show ?thesis
    unfolding signup_def Let_def
    by (simp add: leaks_simps error_json_no_leak k split: option.split)
qed

lemma login_no_leak: "\<not> leaks (body (snd (login rt e d req)))"
  unfolding login_def Let_def
  by (simp add: leaks_simps error_json_no_leak public_view_hides split: option.split)

lemma getById_no_leak: "\<not> leaks (body (getById d q))"
  unfolding getById_def
  by (simp add: leaks_simps error_json_no_leak public_view_hides split: option.split)

lemma listAccounts_no_leak: "\<not> leaks (body (listAccounts d))"
  by (simp add: listAccounts_def leaks_simps sanitizeAccountsForPublic_def public_view_hides)

lemma sse_no_leak: "\<not> leaks (sse_accounts_data data)"
  by (simp add: sse_accounts_data_def leaks_simps sanitizeAccountsForPublic_def
      public_view_hides split: option.split)

text \<open>
  C1. Whatever the store, the request and the environment, the body of the response of
  list accounts, of signup, of login and of get by id, and the data of an \<open>accounts\<close>
  event, hold no object with one of the keys \<open>passwordHash\<close>, \<open>passwordSalt\<close>,
  \<open>resetTokenHash\<close>, \<open>resetTokenExpiry\<close>.
\<close>

theorem public_views_hide_credentials:
  "\<not> leaks (body (listAccounts d))
   \<and> \<not> leaks (body (snd (signup rt e d req)))
   \<and> \<not> leaks (body (snd (login rt e d req)))
   \<and> \<not> leaks (body (getById d q))
   \<and> \<not> leaks (sse_accounts_data data)"
  by (simp add: listAccounts_no_leak signup_no_leak login_no_leak getById_no_leak sse_no_leak)

text \<open>
  The stored account of \<open>alice\<close> has all four keys; her login, the list, get by id and
  the event answer with her public view, which has none of them.
\<close>

theorem public_views_hide_credentials_witness:
  "leaks (Json alice_account)
   \<and> body (listAccounts (Some [alice_account])) = JsonArray [public_view alice_account]
   \<and> \<not> leaks (body (listAccounts (Some [alice_account])))
   \<and> \<not> leaks (body (snd (signup demo_node (demo_env 1700000000000 ''5a'') None (Some alice))))
   \<and> snd (login demo_node (demo_env 1700000000500 ''6b'') (Some [alice_account]) (Some alice))
       = \<lparr>status = 200, body = Json (public_view alice_account)\<rparr>
   \<and> \<not> leaks (body (snd (login demo_node (demo_env 1700000000500 ''6b'')
         (Some [alice_account]) (Some alice))))
   \<and> getById (Some [alice_account]) (Some ''acct_1700000000000'')
       = \<lparr>status = 200, body = Json (public_view alice_account)\<rparr>
   \<and> \<not> leaks (body (getById (Some [alice_account]) (Some ''acct_1700000000000'')))
   \<and> \<not> leaks (sse_accounts_data (Some [alice_account]))"
proof -
  have 1: "leaks (Json alice_account)"
    by (auto simp: leaks_simps exposes_secret_def secret_fields_def alice_account_def)
  have 2: "body (listAccounts (Some [alice_account])) = JsonArray [public_view alice_account]"
    by (simp add: listAccounts_def sanitizeAccountsForPublic_def read_accounts_def)
  have 3: "snd (login demo_node (demo_env 1700000000500 ''6b'') (Some [alice_account]) (Some alice))
       = \<lparr>status = 200, body = Json (public_view alice_account)\<rparr>"
    by (simp add: login_def alice_def alice_account_def demo_node_def demo_env_def field_def
        read_accounts_def strict_eq_def hashPassword_def)
  have 4: "getById (Some [alice_account]) (Some ''acct_1700000000000'')
       = \<lparr>status = 200, body = Json (public_view alice_account)\<rparr>"
    by (simp add: getById_def alice_account_def field_def read_accounts_def strict_eq_def)
  show ?thesis
    using public_views_hide_credentials [of "Some [alice_account]" demo_node
        "demo_env 1700000000000 ''5a''" "Some alice" "Some ''acct_1700000000000''"
        "Some [alice_account]"]
      login_no_leak [of demo_node "demo_env 1700000000500 ''6b''" "Some [alice_account]"
        "Some alice"]
      signup_no_leak [of demo_node "demo_env 1700000000000 ''5a''" None "Some alice"]
    by (simp only: 1 2 3 4 simp_thms)
qed

section \<open>Signup\<close>

text \<open>What a signup that answers 201 has read and written.\<close>

lemma signup_created:
  assumes run: "signup rt e d (Some b) = (d', r)" and ok: "status r = 201"
  shows "\<exists>p acct. field b ''password'' = Some (JStr p) \<and> p \<noteq> [] \<and> truthy (field b ''email'')
      \<and> find (\<lambda>a. strict_eq (field a ''email'') (field b ''email'')) (read_accounts d) = None
      \<and> d' = Some (read_accounts d @ [acct])
      \<and> field acct ''id'' = Some (JStr (''acct_'' @ decimal (now e)))
      \<and> field acct ''email'' = field b ''email''
      \<and> field acct ''passwordSalt'' = Some (JStr (random_hex e))
      \<and> field acct ''passwordHash'' = Some (JStr (scrypt rt p (random_hex e)))
      \<and> field acct ''resetTokenHash'' = Some JNull
      \<and> field acct ''resetTokenExpiry'' = Some JNull
      \<and> body_field (body r) ''id'' = Some (JStr (''acct_'' @ decimal (now e)))"
proof -
  have present: "truthy (field b ''email'') \<and> truthy (field b ''password'')"
  proof (rule ccontr)
    assume "\<not> ?thesis"
    then have "signup rt e d (Some b) = (d, error_json 400 ''email and password required'')"
      by (auto simp: signup_def Let_def)
    with run ok show False by (auto simp: error_json_def)
  qed
  have fresh: "find (\<lambda>a. strict_eq (field a ''email'') (field b ''email'')) (read_accounts d) = None"
  proof (rule ccontr)
    assume "\<not> ?thesis"
    with present have "signup rt e d (Some b) = (d, error_json 409 ''email exists'')"
      by (simp add: signup_def Let_def)
    with run ok show False by (auto simp: error_json_def)
  qed
  obtain h where h: "hashPassword rt (field b ''password'') (Some (JStr (random_hex e))) = Some h"
  proof (cases "hashPassword rt (field b ''password'') (Some (JStr (random_hex e)))")
    case None
    with present fresh
    have "signup rt e d (Some b) = (d, \<lparr>status = 400, body = Text ''invalid body''\<rparr>)"
      by (simp add: signup_def Let_def)
    with run ok show ?thesis by auto
  next
    case (Some h)
    then show ?thesis by (rule that)
  qed
  then obtain p where p: "field b ''password'' = Some (JStr p)"
    and hp: "h = scrypt rt p (random_hex e)"
    by (auto simp: hashPassword_def split: option.splits json.splits)
  from present p have pne: "p \<noteq> []" by simp
  define acct where "acct = stringify_props
     [(''id'', Some (JStr (''acct_'' @ decimal (now e)))), (''name'', field b ''name''),
      (''email'', field b ''email''),
      (''role'', case field b ''role'' of None \<Rightarrow> Some (JStr ''user'') | Some r \<Rightarrow> Some r),
      (''createdAt'', Some (JStr (iso e))), (''passwordHash'', Some (JStr h)),
      (''passwordSalt'', Some (JStr (random_hex e))),
      (''resetTokenHash'', Some JNull), (''resetTokenExpiry'', Some JNull)]"
  have fields: "field acct ''id'' = Some (JStr (''acct_'' @ decimal (now e)))"
    "field acct ''email'' = field b ''email''"
    "field acct ''passwordSalt'' = Some (JStr (random_hex e))"
    "field acct ''passwordHash'' = Some (JStr h)"
    "field acct ''resetTokenHash'' = Some JNull"
    "field acct ''resetTokenExpiry'' = Some JNull"
    unfolding acct_def by (simp_all add: field_stringify_props del: stringify_props.simps)
  have eq: "signup rt e d (Some b) =
      (Some (read_accounts d @ [acct]),
       \<lparr>status = 201, body = Json (stringify_props
          [(''id'', field acct ''id''), (''email'', field acct ''email''),
           (''name'', field acct ''name''), (''createdAt'', field acct ''createdAt''),
           (''role'', field acct ''role'')])\<rparr>)"
    using present fresh h unfolding acct_def
    by (simp add: signup_def Let_def writeJSON_def)
  with run have d': "d' = Some (read_accounts d @ [acct])"
    and r: "r = \<lparr>status = 201, body = Json (stringify_props
          [(''id'', field acct ''id''), (''email'', field acct ''email''),
           (''name'', field acct ''name''), (''createdAt'', field acct ''createdAt''),
           (''role'', field acct ''role'')])\<rparr>"
    by simp_all
  have rid: "body_field (body r) ''id'' = Some (JStr (''acct_'' @ decimal (now e)))"
    unfolding r
    by (simp add: body_field_def field_stringify_props fields(1) del: stringify_props.simps)
  show ?thesis
    using p pne present fresh d' fields rid hp by blast
qed

lemma signup_unchanged_or_created:
  "fst (signup rt e d req) = d \<or> status (snd (signup rt e d req)) = 201"
  unfolding signup_def Let_def by (simp split: option.split)

text \<open>
  C2. The email is not an array or an object. When signup answers 201, a login with
  the same email and password answers 200, writes nothing, and the \<open>id\<close> of its body
  is the \<open>id\<close> of the body of the signup. The login runs on the store \<open>d2\<close>: the
  store that signup wrote, or any later one in which the lookup by that email still
  finds the account as signup stored it.
\<close>

theorem signup_then_login:
  assumes "signup rt e d (Some b) = (d', r)" and "status r = 201"
    and "field b2 ''email'' = field b ''email''" and "field b2 ''password'' = field b ''password''"
    and "find (\<lambda>a. strict_eq (field a ''email'') (field b ''email'')) (read_accounts d2)
       = find (\<lambda>a. strict_eq (field a ''email'') (field b ''email'')) (read_accounts d')"
    and "\<not> is_object (field b ''email'')"
  shows "fst (login rt e2 d2 (Some b2)) = d2
       \<and> status (snd (login rt e2 d2 (Some b2))) = 200
       \<and> body_field (body (snd (login rt e2 d2 (Some b2)))) ''id'' = body_field (body r) ''id''
       \<and> body_field (body r) ''id'' = Some (JStr (''acct_'' @ decimal (now e)))"
proof -
  from signup_created [OF assms(1,2)] obtain p acct where
    pw: "field b ''password'' = Some (JStr p)" "p \<noteq> []" and em: "truthy (field b ''email'')"
    and nf: "find (\<lambda>a. strict_eq (field a ''email'') (field b ''email'')) (read_accounts d) = None"
    and d': "d' = Some (read_accounts d @ [acct])"
    and acct: "field acct ''id'' = Some (JStr (''acct_'' @ decimal (now e)))"
      "field acct ''email'' = field b ''email''"
      "field acct ''passwordSalt'' = Some (JStr (random_hex e))"
      "field acct ''passwordHash'' = Some (JStr (scrypt rt p (random_hex e)))"
    and rid: "body_field (body r) ''id'' = Some (JStr (''acct_'' @ decimal (now e)))"
    by blast
  have "find (\<lambda>a. strict_eq (field a ''email'') (field b ''email'')) (read_accounts d') = Some acct"
    using find_append_last [OF nf, of acct] acct(2) assms(6)
    by (simp add: d' read_accounts_def strict_eq_def)
  with assms(5)
  have f: "find (\<lambda>a. strict_eq (field a ''email'') (field b ''email'')) (read_accounts d2) = Some acct"
    by simp
  have "login rt e2 d2 (Some b2) = (d2, \<lparr>status = 200, body = Json (public_view acct)\<rparr>)"
    unfolding login_def Let_def
    using f pw em assms(3,4) acct by (simp add: hashPassword_def)
  then show ?thesis
    using acct(1) rid by (simp add: body_field_def field_public_view secret_fields_def)
qed

theorem signup_then_login_witness:
  "status (snd (signup demo_node (demo_env 1700000000000 ''5a'') None (Some alice))) = 201
   \<and> fst (signup demo_node (demo_env 1700000000000 ''5a'') None (Some alice)) = Some [alice_account]
   \<and> status (snd (login demo_node (demo_env 1700000000500 ''6b'') (Some [alice_account])
         (Some alice))) = 200
   \<and> body_field (body (snd (login demo_node (demo_env 1700000000500 ''6b'') (Some [alice_account])
         (Some alice)))) ''id'' = Some (JStr ''acct_1700000000000'')"
proof -
  have ok: "status \<lparr>status = 201, body = Json [(''id'', JStr ''acct_1700000000000''),
        (''email'', JStr ''a@x.com''), (''createdAt'', JStr ''2026-01-01T00:00:00.000Z''),
        (''role'', JStr ''user'')]\<rparr> = 201"
    by simp
  have prim: "\<not> is_object (field alice ''email'')"
    by (simp add: alice_def field_def)
  show ?thesis
    using signup_then_login [OF alice_signup ok refl refl refl prim,
        of "demo_env 1700000000500 ''6b''"]
    by (simp add: alice_signup body_field_def field_def)
qed

text \<open>
  The email of the request is the array \<open>["a@x.com"]\<close>. It is truthy and no stored email
  is the same array, so signup answers 201 and stores it. The login with the same
  body compares the stored array with the array of its own request, which is another
  one, finds no account and answers 401.
\<close>

theorem signup_array_email_cannot_login:
  "signup demo_node (demo_env 1700000000000 ''5a'') None
      (Some (credentials (JArr [JStr ''a@x.com'']) (JStr ''p1'')))
     = (Some [array_email_account],
        \<lparr>status = 201, body = Json [(''id'', JStr ''acct_1700000000000''),
           (''email'', JArr [JStr ''a@x.com'']),
           (''createdAt'', JStr ''2026-01-01T00:00:00.000Z''), (''role'', JStr ''user'')]\<rparr>)
   \<and> login demo_node (demo_env 1700000000500 ''6b'') (Some [array_email_account])
      (Some (credentials (JArr [JStr ''a@x.com'']) (JStr ''p1'')))
     = (Some [array_email_account],
        \<lparr>status = 401, body = Json [(''error'', JStr ''invalid credentials'')]\<rparr>)"
  by (simp add: signup_def login_def Let_def credentials_def array_email_account_def
      demo_node_def demo_env_def field_def read_accounts_def strict_eq_def hashPassword_def
      writeJSON_def error_json_def decimal_example)

text \<open>
  C9. Signup takes the id from the clock alone, \<open>'acct_' + Date.now()\<close>, and compares
  it with nothing. So the id of a new account is new, and the ids of the store stay
  distinct, when every id of the store is \<open>acct_\<close> followed by a clock reading other
  than the present one; the store then has again only ids of that form.
\<close>

theorem signup_id_fresh_when_clock_fresh:
  assumes "signup rt e d (Some b) = (d', r)" and "status r = 201"
    and "distinct (account_ids d)"
    and "\<forall>a \<in> set (read_accounts d).
           \<exists>t. field a ''id'' = Some (JStr (''acct_'' @ decimal t)) \<and> t \<noteq> now e"
  shows "body_field (body r) ''id'' = Some (JStr (''acct_'' @ decimal (now e)))
       \<and> body_field (body r) ''id'' \<notin> set (account_ids d)
       \<and> account_ids d' = account_ids d @ [body_field (body r) ''id'']
       \<and> distinct (account_ids d')"
proof -
  from signup_created [OF assms(1,2)] obtain acct where
    d': "d' = Some (read_accounts d @ [acct])"
    and aid: "field acct ''id'' = Some (JStr (''acct_'' @ decimal (now e)))"
    and rid: "body_field (body r) ''id'' = Some (JStr (''acct_'' @ decimal (now e)))"
    by blast
  have new: "Some (JStr (''acct_'' @ decimal (now e))) \<notin> set (account_ids d)"
  proof
    assume "Some (JStr (''acct_'' @ decimal (now e))) \<in> set (account_ids d)"
    then obtain a where a: "a \<in> set (read_accounts d)"
      and ida: "field a ''id'' = Some (JStr (''acct_'' @ decimal (now e)))"
      by (auto simp: account_ids_def)
    from assms(4) a obtain t where "field a ''id'' = Some (JStr (''acct_'' @ decimal t))"
      and "t \<noteq> now e"
      by blast
    with ida have "decimal t = decimal (now e)" by simp
    with \<open>t \<noteq> now e\<close> show False by (simp add: decimal_inj)
  qed
  have ids: "account_ids d' = account_ids d @ [Some (JStr (''acct_'' @ decimal (now e)))]"
    by (simp add: d' account_ids_def read_accounts_def aid)
  show ?thesis
    using rid new ids assms(3) by simp
qed

theorem signup_id_fresh_when_clock_fresh_witness:
  "status (snd (signup demo_node (demo_env 1700000000001 ''7c'') (Some [alice_account])
        (Some bob))) = 201
   \<and> account_ids (Some [alice_account]) = [Some (JStr ''acct_1700000000000'')]
   \<and> body_field (body (snd (signup demo_node (demo_env 1700000000001 ''7c'') (Some [alice_account])
        (Some bob)))) ''id'' = Some (JStr ''acct_1700000000001'')
   \<and> distinct (account_ids (fst (signup demo_node (demo_env 1700000000001 ''7c'')
        (Some [alice_account]) (Some bob))))"
proof -
  have ok: "status \<lparr>status = 201, body = Json [(''id'', JStr ''acct_1700000000001''),
        (''email'', JStr ''b@x.com''), (''name'', JStr ''Bob''),
        (''createdAt'', JStr ''2026-01-01T00:00:00.000Z''), (''role'', JStr ''user'')]\<rparr> = 201"
    by simp
  have d: "distinct (account_ids (Some [alice_account]))"
    by (simp add: demo_ids)
  have "field alice_account ''id'' = Some (JStr (''acct_'' @ decimal 1700000000000))
      \<and> (1700000000000 :: nat) \<noteq> now (demo_env 1700000000001 ''7c'')"
    by (simp add: alice_account_def field_def decimal_example demo_env_def)
  then have old: "\<forall>a \<in> set (read_accounts (Some [alice_account])).
      \<exists>t. field a ''id'' = Some (JStr (''acct_'' @ decimal t))
         \<and> t \<noteq> now (demo_env 1700000000001 ''7c'')"
    unfolding read_accounts_def by auto
  have fresh: "distinct (account_ids (Some [alice_account, bob_account ''acct_1700000000001'']))"
    using signup_id_fresh_when_clock_fresh [OF bob_signup_later ok d old]
    by (rule conjunct2 [THEN conjunct2, THEN conjunct2])
  show ?thesis
    unfolding bob_signup_later fst_conv snd_conv
    using fresh by (simp add: demo_ids(1) body_field_def field_def)
qed

text \<open>
  The store holds the account that \<open>alice\<close> got at clock reading 1700000000000. A signup
  served at the same reading (the clock was set back, or another server process wrote
  the file) answers 201 with the id that is already in the store, and the store then
  holds that id twice.
\<close>

theorem signup_same_clock_repeats_id:
  "account_ids (Some [alice_account]) = [Some (JStr ''acct_1700000000000'')]
   \<and> status (snd (signup demo_node (demo_env 1700000000000 ''7c'') (Some [alice_account])
        (Some bob))) = 201
   \<and> body_field (body (snd (signup demo_node (demo_env 1700000000000 ''7c'') (Some [alice_account])
        (Some bob)))) ''id'' = Some (JStr ''acct_1700000000000'')
   \<and> account_ids (fst (signup demo_node (demo_env 1700000000000 ''7c'') (Some [alice_account])
        (Some bob))) = [Some (JStr ''acct_1700000000000''), Some (JStr ''acct_1700000000000'')]
   \<and> \<not> distinct (account_ids (fst (signup demo_node (demo_env 1700000000000 ''7c'')
        (Some [alice_account]) (Some bob))))"
  unfolding bob_signup_same_clock fst_conv snd_conv demo_ids
  by (simp add: body_field_def field_def)

section \<open>Login\<close>

text \<open>The login of a string password, once the account is found.\<close>

lemma login_found:
  assumes "truthy (field b ''email'')" and "field b ''password'' = Some (JStr p)" and "p \<noteq> []"
    and "find (\<lambda>a. strict_eq (field a ''email'') (field b ''email'')) (read_accounts d) = Some acct"
  shows "login rt e d (Some b) =
    (case hashPassword rt (Some (JStr p)) (field acct ''passwordSalt'') of
       None \<Rightarrow> (d, error_json 400 ''invalid body'')
     | Some scryptHash \<Rightarrow>
         if Some (JStr scryptHash) = field acct ''passwordHash''
         then (d, \<lparr>status = 200, body = Json (public_view acct)\<rparr>)
         else if Some (JStr (md5 rt p)) = field acct ''passwordHash''
         then (writeJSON (replace_first (\<lambda>a. strict_eq (field a ''email'') (field b ''email''))
                 (set_field ''passwordHash'' (JStr (scrypt rt p (random_hex e)))
                    (set_field ''passwordSalt'' (JStr (random_hex e)) acct)) (read_accounts d)),
               \<lparr>status = 200, body = Json (public_view
                 (set_field ''passwordHash'' (JStr (scrypt rt p (random_hex e)))
                    (set_field ''passwordSalt'' (JStr (random_hex e)) acct)))\<rparr>)
         else (d, error_json 401 ''invalid credentials''))"
  using assms
  by (simp add: login_def Let_def md5_hex_def hashPassword_def split: option.split)

text \<open>
  C3. The claim fails on a legacy account that has no salt, which is what an unsalted
  scheme leaves: \<open>passwordHash\<close> is the unsalted digest of the password and
  \<open>passwordSalt\<close> is absent (or \<open>null\<close>). The handler calls \<open>hashPassword\<close> with that
  salt before the \<open>try\<close> block of the fallback; \<open>scryptSync\<close> throws, and the login
  with the right password is answered 400 \<open>invalid body\<close>, with nothing written.
\<close>

theorem legacy_login_without_salt:
  assumes "field b ''email'' = Some (JStr m)" and "m \<noteq> []"
    and "field b ''password'' = Some (JStr p)" and "p \<noteq> []"
    and "find (\<lambda>a. strict_eq (field a ''email'') (field b ''email'')) (read_accounts d) = Some acct"
    and "field acct ''passwordHash'' = Some (JStr (md5 rt p))"
    and "field acct ''passwordSalt'' = None \<or> field acct ''passwordSalt'' = Some JNull"
  shows "login rt e d (Some b) = (d, error_json 400 ''invalid body'')"
proof -
  have "truthy (field b ''email'')"
    using assms(1,2) by simp
  from login_found [OF this assms(3,4,5), of rt e] assms(7) show ?thesis
    by (auto simp: hashPassword_def)
qed

theorem legacy_login_without_salt_witness:
  "field legacy_account ''passwordHash'' = Some (JStr (md5 demo_node ''p1''))
   \<and> field legacy_account ''passwordSalt'' = None
   \<and> login demo_node (demo_env 1700000000500 ''6b'') (Some [legacy_account])
       (Some (credentials (JStr ''old@x.com'') (JStr ''p1'')))
     = (Some [legacy_account], \<lparr>status = 400, body = Json [(''error'', JStr ''invalid body'')]\<rparr>)"
proof -
  have f: "find (\<lambda>a. strict_eq (field a ''email'') (field (credentials (JStr ''old@x.com'') (JStr ''p1'')) ''email''))
      (read_accounts (Some [legacy_account])) = Some legacy_account"
    by (simp add: read_accounts_def strict_eq_def legacy_account_def field_def credentials_def)
  have h: "field legacy_account ''passwordHash'' = Some (JStr (md5 demo_node ''p1''))"
    by (simp add: legacy_account_def field_def demo_node_def)
  have s: "field legacy_account ''passwordSalt'' = None"
    by (simp add: legacy_account_def field_def)
  have s': "field legacy_account ''passwordSalt'' = None
      \<or> field legacy_account ''passwordSalt'' = Some JNull"
    using s by simp
  have ne: "''old@x.com'' \<noteq> []" "''p1'' \<noteq> []"
    by simp_all
  show ?thesis
    using legacy_login_without_salt [OF field_credentials(1) ne(1) field_credentials(2) ne(2)
        f h s', of "demo_env 1700000000500 ''6b''"] h s
    by (simp add: error_json_def)
qed

text \<open>
  With a salt string on the legacy account the fallback is reached: the login with the
  right password answers 200 with the public view, the store then holds a fresh salt
  and the scrypt digest under it, and a second login answers the same and writes nothing.
\<close>

theorem legacy_login_upgrades:
  assumes "field b ''email'' = Some (JStr m)" and "m \<noteq> []"
    and "field b ''password'' = Some (JStr p)" and "p \<noteq> []"
    and "find (\<lambda>a. strict_eq (field a ''email'') (field b ''email'')) (read_accounts d) = Some acct"
    and "field acct ''passwordHash'' = Some (JStr (md5 rt p))"
    and "field acct ''passwordSalt'' = Some (JStr s)"
    and "scrypt rt p s \<noteq> md5 rt p"
    and "login rt e d (Some b) = (d', r)"
  shows "status r = 200
     \<and> (\<exists>acct'. find (\<lambda>a. strict_eq (field a ''email'') (field b ''email'')) (read_accounts d') = Some acct'
           \<and> field acct' ''passwordSalt'' = Some (JStr (random_hex e))
           \<and> field acct' ''passwordHash'' = Some (JStr (scrypt rt p (random_hex e)))
           \<and> body r = Json (public_view acct'))
     \<and> login rt e2 d' (Some b) = (d', r)"
proof -
  let ?P = "\<lambda>a. strict_eq (field a ''email'') (field b ''email'')"
  define acct' where "acct' = set_field ''passwordHash'' (JStr (scrypt rt p (random_hex e)))
                    (set_field ''passwordSalt'' (JStr (random_hex e)) acct)"
  have em: "truthy (field b ''email'')"
    using assms(1,2) by simp
  have P: "?P acct" using find_SomeD [OF assms(5)] by simp
  have fields: "field acct' ''passwordSalt'' = Some (JStr (random_hex e))"
    "field acct' ''passwordHash'' = Some (JStr (scrypt rt p (random_hex e)))"
    "strict_eq (field acct' ''email'') (field b ''email'')"
    using P by (simp_all add: acct'_def field_set_field)
  have "login rt e d (Some b) =
      (Some (replace_first ?P acct' (read_accounts d)),
       \<lparr>status = 200, body = Json (public_view acct')\<rparr>)"
    using assms(6,7,8) login_found [OF em assms(3,4,5), of rt e]
    by (simp add: hashPassword_def acct'_def writeJSON_def)
  with assms(9) have d': "d' = Some (replace_first ?P acct' (read_accounts d))"
    and r: "r = \<lparr>status = 200, body = Json (public_view acct')\<rparr>"
    by simp_all
  have f': "find ?P (read_accounts d') = Some acct'"
    using assms(5) fields(3) d' by (rule find_written)
  have again: "login rt e2 d' (Some b) = (d', r)"
    using fields(1,2) login_found [OF em assms(3,4) f', of rt e2]
    by (simp add: hashPassword_def r)
  show ?thesis
    using f' fields again r by auto
qed

theorem legacy_login_upgrades_witness:
  "login demo_node (demo_env 1700000000500 ''6b'') (Some [salted_legacy_account])
      (Some (credentials (JStr ''old@x.com'') (JStr ''p1'')))
     = (Some [upgraded_legacy_account],
        \<lparr>status = 200, body = Json [(''id'', JStr ''acct_2''), (''email'', JStr ''old@x.com'')]\<rparr>)
   \<and> login demo_node (demo_env 1700000000900 ''7c'') (Some [upgraded_legacy_account])
       (Some (credentials (JStr ''old@x.com'') (JStr ''p1'')))
     = (Some [upgraded_legacy_account],
        \<lparr>status = 200, body = Json [(''id'', JStr ''acct_2''), (''email'', JStr ''old@x.com'')]\<rparr>)"
proof -
  have f: "find (\<lambda>a. strict_eq (field a ''email'') (field (credentials (JStr ''old@x.com'') (JStr ''p1'')) ''email''))
      (read_accounts (Some [salted_legacy_account])) = Some salted_legacy_account"
    by (simp add: read_accounts_def strict_eq_def salted_legacy_account_def field_def credentials_def)
  have h: "field salted_legacy_account ''passwordHash'' = Some (JStr (md5 demo_node ''p1''))"
    by (simp add: salted_legacy_account_def field_def demo_node_def)
  have s: "field salted_legacy_account ''passwordSalt'' = Some (JStr ''00'')"
    by (simp add: salted_legacy_account_def field_def)
  have n: "scrypt demo_node ''p1'' ''00'' \<noteq> md5 demo_node ''p1''"
    by (simp add: demo_node_def)
  have ne: "''old@x.com'' \<noteq> []" "''p1'' \<noteq> []"
    by simp_all
  show ?thesis
    using legacy_login_upgrades [OF field_credentials(1) ne(1) field_credentials(2) ne(2)
        f h s n legacy_upgrade_run, of "demo_env 1700000000900 ''7c''"]
    by (simp add: legacy_upgrade_run)
qed

text \<open>
  C4. A login whose password is a string is answered 401 \<open>invalid credentials\<close>, with
  nothing written, both when no account has the email and when the account found has
  a salt string and neither the scrypt digest of the password under that salt nor its
  unsalted digest is the stored hash.
\<close>

theorem login_failure_uniform:
  assumes "truthy (field b ''email'')" and "field b ''password'' = Some (JStr p)" and "p \<noteq> []"
    and "find (\<lambda>a. strict_eq (field a ''email'') (field b ''email'')) (read_accounts d) = None
       \<or> (\<exists>acct s. find (\<lambda>a. strict_eq (field a ''email'') (field b ''email'')) (read_accounts d) = Some acct
             \<and> field acct ''passwordSalt'' = Some (JStr s)
             \<and> field acct ''passwordHash'' \<noteq> Some (JStr (scrypt rt p s))
             \<and> field acct ''passwordHash'' \<noteq> Some (JStr (md5 rt p)))"
  shows "login rt e d (Some b) = (d, error_json 401 ''invalid credentials'')"
  using assms(4)
proof
  assume "find (\<lambda>a. strict_eq (field a ''email'') (field b ''email'')) (read_accounts d) = None"
  with assms(1-3) show ?thesis
    by (simp add: login_def Let_def)
next
  assume "\<exists>acct s. find (\<lambda>a. strict_eq (field a ''email'') (field b ''email'')) (read_accounts d) = Some acct
             \<and> field acct ''passwordSalt'' = Some (JStr s)
             \<and> field acct ''passwordHash'' \<noteq> Some (JStr (scrypt rt p s))
             \<and> field acct ''passwordHash'' \<noteq> Some (JStr (md5 rt p))"
  then obtain acct s where
    "find (\<lambda>a. strict_eq (field a ''email'') (field b ''email'')) (read_accounts d) = Some acct"
    "field acct ''passwordSalt'' = Some (JStr s)"
    "field acct ''passwordHash'' \<noteq> Some (JStr (scrypt rt p s))"
    "field acct ''passwordHash'' \<noteq> Some (JStr (md5 rt p))"
    by blast
  then show ?thesis
    using login_found [OF assms(1-3), of d acct rt e]
    by (auto simp: hashPassword_def)
qed

text \<open>An unknown email, and the email of \<open>alice\<close> with a wrong password: the same answer.\<close>

theorem login_failure_uniform_witness:
  "login demo_node (demo_env 1700000000500 ''6b'') (Some [alice_account])
      (Some (credentials (JStr ''nobody@x.com'') (JStr ''p1'')))
     = (Some [alice_account], \<lparr>status = 401, body = Json [(''error'', JStr ''invalid credentials'')]\<rparr>)
   \<and> login demo_node (demo_env 1700000000500 ''6b'') (Some [alice_account])
      (Some (credentials (JStr ''a@x.com'') (JStr ''wrong'')))
     = (Some [alice_account], \<lparr>status = 401, body = Json [(''error'', JStr ''invalid credentials'')]\<rparr>)"
proof -
  have unknown: "find (\<lambda>a. strict_eq (field a ''email'') (field (credentials (JStr ''nobody@x.com'') (JStr ''p1'')) ''email''))
      (read_accounts (Some [alice_account])) = None
    \<or> (\<exists>acct s. find (\<lambda>a. strict_eq (field a ''email'') (field (credentials (JStr ''nobody@x.com'') (JStr ''p1'')) ''email''))
          (read_accounts (Some [alice_account])) = Some acct
        \<and> field acct ''passwordSalt'' = Some (JStr s)
        \<and> field acct ''passwordHash'' \<noteq> Some (JStr (scrypt demo_node ''p1'' s))
        \<and> field acct ''passwordHash'' \<noteq> Some (JStr (md5 demo_node ''p1'')))"
    by (simp add: field_credentials demo_find)
  have "field alice_account ''passwordSalt'' = Some (JStr ''5a'')
        \<and> field alice_account ''passwordHash'' \<noteq> Some (JStr (scrypt demo_node ''wrong'' ''5a''))
        \<and> field alice_account ''passwordHash'' \<noteq> Some (JStr (md5 demo_node ''wrong''))"
    by (simp add: alice_account_def field_def demo_node_def)
  then have wrong: "find (\<lambda>a. strict_eq (field a ''email'') (field (credentials (JStr ''a@x.com'') (JStr ''wrong'')) ''email''))
      (read_accounts (Some [alice_account])) = None
    \<or> (\<exists>acct s. find (\<lambda>a. strict_eq (field a ''email'') (field (credentials (JStr ''a@x.com'') (JStr ''wrong'')) ''email''))
          (read_accounts (Some [alice_account])) = Some acct
        \<and> field acct ''passwordSalt'' = Some (JStr s)
        \<and> field acct ''passwordHash'' \<noteq> Some (JStr (scrypt demo_node ''wrong'' s))
        \<and> field acct ''passwordHash'' \<noteq> Some (JStr (md5 demo_node ''wrong'')))"
    by (simp add: field_credentials demo_find)
  have t: "truthy (field (credentials (JStr m) p) ''email'') = (m \<noteq> [])" for m p
    by (simp add: field_credentials)
  show ?thesis
    using login_failure_uniform [OF _ field_credentials(2) _ unknown,
        where e = "demo_env 1700000000500 ''6b''"]
      login_failure_uniform [OF _ field_credentials(2) _ wrong,
        where e = "demo_env 1700000000500 ''6b''"]
    by (simp add: t error_json_def)
qed

text \<open>
  Both fields are present when the password is the number 12345. No password can be
  right then, yet the answer tells whether the email has an account: 400
  \<open>invalid body\<close> for the email of \<open>alice\<close>, where \<open>scryptSync\<close> throws on the number, and
  401 \<open>invalid credentials\<close> for an email that has none.
\<close>

theorem login_number_password_tells_accounts_apart:
  "truthy (field (credentials (JStr ''a@x.com'') (JNum 12345)) ''email'')
   \<and> truthy (field (credentials (JStr ''a@x.com'') (JNum 12345)) ''password'')
   \<and> login demo_node (demo_env 1700000000500 ''6b'') (Some [alice_account])
      (Some (credentials (JStr ''a@x.com'') (JNum 12345)))
     = (Some [alice_account], \<lparr>status = 400, body = Json [(''error'', JStr ''invalid body'')]\<rparr>)
   \<and> login demo_node (demo_env 1700000000500 ''6b'') (Some [alice_account])
      (Some (credentials (JStr ''nobody@x.com'') (JNum 12345)))
     = (Some [alice_account], \<lparr>status = 401, body = Json [(''error'', JStr ''invalid credentials'')]\<rparr>)"
  by (simp add: login_def Let_def credentials_def alice_account_def field_def read_accounts_def strict_eq_def
      hashPassword_def error_json_def)

section \<open>Requests whose body does not parse\<close>

text \<open>
  C8. The claim fails on signup: when the body does not parse, the \<open>catch\<close> of the
  signup handler ends the response with the bare text \<open>invalid body\<close>, which is not a
  JSON object with an \<open>error\<close> key. The other four POST handlers on accounts answer
  the same request with the JSON object.
\<close>

theorem signup_malformed_body_is_plain_text:
  "signup rt e d None = (d, \<lparr>status = 400, body = Text ''invalid body''\<rparr>)
   \<and> snd (signup rt e d None) \<noteq> error_json 400 ''invalid body''
   \<and> login rt e d None = (d, error_json 400 ''invalid body'')
   \<and> update_account d None = (d, error_json 400 ''invalid body'')
   \<and> requestReset rt e d None = (d, error_json 400 ''invalid body'')
   \<and> completeReset rt e d None = (d, error_json 400 ''invalid body'')"
  by (simp add: signup_def login_def update_account_def requestReset_def completeReset_def
      error_json_def)

theorem signup_malformed_body_is_plain_text_witness:
  "signup demo_node (demo_env 1700000000000 ''5a'') (Some [alice_account]) None
     = (Some [alice_account], \<lparr>status = 400, body = Text ''invalid body''\<rparr>)
   \<and> login demo_node (demo_env 1700000000000 ''5a'') (Some [alice_account]) None
     = (Some [alice_account], \<lparr>status = 400, body = Json [(''error'', JStr ''invalid body'')]\<rparr>)"
  using signup_malformed_body_is_plain_text
    [of demo_node "demo_env 1700000000000 ''5a''" "Some [alice_account]"]
  by (simp add: error_json_def)

section \<open>Password reset\<close>

text \<open>The completion of a reset with all three fields present, once the account is found.\<close>

lemma completeReset_found:
  assumes "truthy (field b ''email'')" and "truthy (field b ''token'')"
    and "truthy (field b ''newPassword'')"
    and "find (\<lambda>a. strict_eq (field a ''email'') (field b ''email'')) (read_accounts d) = Some acct"
  shows "completeReset rt e d (Some b) =
    (if \<not> truthy (field acct ''resetTokenHash'') \<or> \<not> truthy (field acct ''resetTokenExpiry'')
     then (d, error_json 400 ''no reset requested'')
     else
       (case now_after rt (now e) (field acct ''resetTokenExpiry'') of
          None \<Rightarrow> (d, error_json 400 ''invalid body'')
        | Some late \<Rightarrow>
       if late then (d, error_json 400 ''token expired'')
       else
       (case sha256_hex rt (field b ''token'') of
          None \<Rightarrow> (d, error_json 400 ''invalid body'')
        | Some tokenHash \<Rightarrow>
            if Some (JStr tokenHash) \<noteq> field acct ''resetTokenHash''
            then (d, error_json 400 ''invalid token'')
            else
              (case hashPassword rt (field b ''newPassword'') (Some (JStr (random_hex e))) of
                 None \<Rightarrow> (d, error_json 400 ''invalid body'')
               | Some newHash \<Rightarrow>
                   (writeJSON (replace_first (\<lambda>a. strict_eq (field a ''email'') (field b ''email''))
                      (set_field ''resetTokenExpiry'' JNull (set_field ''resetTokenHash'' JNull
                        (set_field ''passwordHash'' (JStr newHash)
                          (set_field ''passwordSalt'' (JStr (random_hex e)) acct))))
                      (read_accounts d)),
                    \<lparr>status = 200, body = Json [(''message'', JStr ''password updated'')]\<rparr>)))))"
  using assms unfolding completeReset_def Let_def by simp

text \<open>
  C5. A reset is pending on the account that the email finds: its \<open>resetTokenHash\<close> and
  \<open>resetTokenExpiry\<close> pass the handler's test, the expiry being the number \<open>t\<close>. A
  completion served at a clock reading after \<open>t\<close> is answered 400 \<open>token expired\<close>,
  whatever the token and the new password, and the store is left as it was.
\<close>

theorem expired_token_rejected:
  assumes "truthy (field b ''email'')" and "truthy (field b ''token'')"
    and "truthy (field b ''newPassword'')"
    and "find (\<lambda>a. strict_eq (field a ''email'') (field b ''email'')) (read_accounts d) = Some acct"
    and "truthy (field acct ''resetTokenHash'')"
    and "field acct ''resetTokenExpiry'' = Some (JNum t)" and "t \<noteq> 0"
    and "t < int (now e)"
  shows "completeReset rt e d (Some b) = (d, error_json 400 ''token expired'')"
  using assms(5-8) completeReset_found [OF assms(1-4), of rt e]
  by (simp add: now_after_def)

theorem expired_token_rejected_witness:
  "completeReset demo_node (demo_env 1700003600001 ''8d'') (Some [alice_pending ''tok1'' 1700003600000])
      (Some (alice_reset ''tok1''))
    = (Some [alice_pending ''tok1'' 1700003600000],
       \<lparr>status = 400, body = Json [(''error'', JStr ''token expired'')]\<rparr>)"
proof -
  have b: "truthy (field (alice_reset ''tok1'') ''email'')"
    "truthy (field (alice_reset ''tok1'') ''token'')"
    "truthy (field (alice_reset ''tok1'') ''newPassword'')"
    by (simp_all add: alice_reset_def field_def)
  have f: "find (\<lambda>a. strict_eq (field a ''email'') (field (alice_reset ''tok1'') ''email''))
      (read_accounts (Some [alice_pending ''tok1'' 1700003600000]))
     = Some (alice_pending ''tok1'' 1700003600000)"
    using demo_find(2) by (simp add: alice_reset_def field_def)
  have h: "truthy (field (alice_pending ''tok1'' 1700003600000) ''resetTokenHash'')"
    by (simp add: alice_pending_def field_def)
  have x: "field (alice_pending ''tok1'' 1700003600000) ''resetTokenExpiry'' = Some (JNum 1700003600000)"
    by (simp add: alice_pending_def field_def)
  have late: "(1700003600000 :: int) < int (now (demo_env 1700003600001 ''8d''))"
    by (simp add: demo_env_def)
  show ?thesis
    using expired_token_rejected [OF b f h x _ late, of demo_node]
    by (simp add: error_json_def)
qed

text \<open>What a completion that answers 200 has read and written.\<close>

lemma completeReset_ok:
  assumes run: "completeReset rt e d (Some b) = (d', r)" and ok: "status r = 200"
  shows "\<exists>acct h. truthy (field b ''email'')
     \<and> find (\<lambda>a. strict_eq (field a ''email'') (field b ''email'')) (read_accounts d) = Some acct
     \<and> hashPassword rt (field b ''newPassword'') (Some (JStr (random_hex e))) = Some h
     \<and> d' = Some (replace_first (\<lambda>a. strict_eq (field a ''email'') (field b ''email''))
                      (set_field ''resetTokenExpiry'' JNull (set_field ''resetTokenHash'' JNull
                        (set_field ''passwordHash'' (JStr h)
                          (set_field ''passwordSalt'' (JStr (random_hex e)) acct))))
                      (read_accounts d))"
proof -
  have no: "completeReset rt e d (Some b) \<noteq> (d, error_json 400 m)" for m
    using run ok by (auto simp: error_json_def)
  have present: "truthy (field b ''email'') \<and> truthy (field b ''token'')
      \<and> truthy (field b ''newPassword'')"
  proof (rule ccontr)
    assume "\<not> ?thesis"
    then have "completeReset rt e d (Some b) = (d, error_json 400 ''email,token,newPassword required'')"
      by (auto simp: completeReset_def Let_def)
    with no show False by blast
  qed
  obtain acct where f: "find (\<lambda>a. strict_eq (field a ''email'') (field b ''email'')) (read_accounts d) = Some acct"
  proof (cases "find (\<lambda>a. strict_eq (field a ''email'') (field b ''email'')) (read_accounts d)")
    case None
    with present have "completeReset rt e d (Some b) = (d, error_json 400 ''no reset requested'')"
      by (simp add: completeReset_def Let_def)
    with no show ?thesis by blast
  next
    case (Some a)
    then show ?thesis by (rule that)
  qed
  have eq: "completeReset rt e d (Some b) =
    (if \<not> truthy (field acct ''resetTokenHash'') \<or> \<not> truthy (field acct ''resetTokenExpiry'')
     then (d, error_json 400 ''no reset requested'')
     else
       (case now_after rt (now e) (field acct ''resetTokenExpiry'') of
          None \<Rightarrow> (d, error_json 400 ''invalid body'')
        | Some late \<Rightarrow>
       if late then (d, error_json 400 ''token expired'')
       else
       (case sha256_hex rt (field b ''token'') of
          None \<Rightarrow> (d, error_json 400 ''invalid body'')
        | Some tokenHash \<Rightarrow>
            if Some (JStr tokenHash) \<noteq> field acct ''resetTokenHash''
            then (d, error_json 400 ''invalid token'')
            else
              (case hashPassword rt (field b ''newPassword'') (Some (JStr (random_hex e))) of
                 None \<Rightarrow> (d, error_json 400 ''invalid body'')
               | Some newHash \<Rightarrow>
                   (writeJSON (replace_first (\<lambda>a. strict_eq (field a ''email'') (field b ''email''))
                      (set_field ''resetTokenExpiry'' JNull (set_field ''resetTokenHash'' JNull
                        (set_field ''passwordHash'' (JStr newHash)
                          (set_field ''passwordSalt'' (JStr (random_hex e)) acct))))
                      (read_accounts d)),
                    \<lparr>status = 200, body = Json [(''message'', JStr ''password updated'')]\<rparr>)))))"
    using completeReset_found [of b d acct rt e] present f by simp
  have c1: "\<not> (\<not> truthy (field acct ''resetTokenHash'') \<or> \<not> truthy (field acct ''resetTokenExpiry''))"
  proof
    assume "\<not> truthy (field acct ''resetTokenHash'') \<or> \<not> truthy (field acct ''resetTokenExpiry'')"
    with eq have "completeReset rt e d (Some b) = (d, error_json 400 ''no reset requested'')"
      by simp
    with no show False by blast
  qed
  have c2: "now_after rt (now e) (field acct ''resetTokenExpiry'') = Some False"
  proof (cases "now_after rt (now e) (field acct ''resetTokenExpiry'')")
    case None
    with eq c1 have "completeReset rt e d (Some b) = (d, error_json 400 ''invalid body'')"
      by simp
    with no show ?thesis by blast
  next
    case (Some late)
    show ?thesis
    proof (cases late)
      case True
      with Some eq c1 have "completeReset rt e d (Some b) = (d, error_json 400 ''token expired'')"
        by simp
      with no show ?thesis by blast
    next
      case False
      with Some show ?thesis by simp
    qed
  qed
  obtain th where th: "sha256_hex rt (field b ''token'') = Some th"
  proof (cases "sha256_hex rt (field b ''token'')")
    case None
    with eq c1 c2 have "completeReset rt e d (Some b) = (d, error_json 400 ''invalid body'')"
      by simp
    with no show ?thesis by blast
  next
    case (Some a)
    then show ?thesis by (rule that)
  qed
  have c3: "Some (JStr th) = field acct ''resetTokenHash''"
  proof (rule ccontr)
    assume "Some (JStr th) \<noteq> field acct ''resetTokenHash''"
    with eq c1 c2 th have "completeReset rt e d (Some b) = (d, error_json 400 ''invalid token'')"
      by simp
    with no show False by blast
  qed
  obtain h where h: "hashPassword rt (field b ''newPassword'') (Some (JStr (random_hex e))) = Some h"
  proof (cases "hashPassword rt (field b ''newPassword'') (Some (JStr (random_hex e)))")
    case None
    with eq c1 c2 th c3 have "completeReset rt e d (Some b) = (d, error_json 400 ''invalid body'')"
      by simp
    with no show ?thesis by blast
  next
    case (Some a)
    then show ?thesis by (rule that)
  qed
  have "completeReset rt e d (Some b) =
     (Some (replace_first (\<lambda>a. strict_eq (field a ''email'') (field b ''email''))
                      (set_field ''resetTokenExpiry'' JNull (set_field ''resetTokenHash'' JNull
                        (set_field ''passwordHash'' (JStr h)
                          (set_field ''passwordSalt'' (JStr (random_hex e)) acct))))
                      (read_accounts d)),
      \<lparr>status = 200, body = Json [(''message'', JStr ''password updated'')]\<rparr>)"
    using eq c1 c2 th c3 h by (simp add: writeJSON_def)
  with run have "d' = Some (replace_first (\<lambda>a. strict_eq (field a ''email'') (field b ''email''))
                      (set_field ''resetTokenExpiry'' JNull (set_field ''resetTokenHash'' JNull
                        (set_field ''passwordHash'' (JStr h)
                          (set_field ''passwordSalt'' (JStr (random_hex e)) acct))))
                      (read_accounts d))"
    by simp
  with present f h show ?thesis by blast
qed

text \<open>
  C6. When a completion answers 200, the account it wrote has the new salt and the
  digest of the new password under it, and \<open>null\<close> at both reset fields, all in the one
  write. A second completion for that email on the store so written, with any token
  and new password present, is answered 400 \<open>no reset requested\<close> and writes nothing.
\<close>

theorem reset_consumes_token:
  assumes "completeReset rt e d (Some b) = (d', r)" and "status r = 200"
    and "field b2 ''email'' = field b ''email''"
    and "truthy (field b2 ''token'')" and "truthy (field b2 ''newPassword'')"
  shows "(\<exists>acct. find (\<lambda>a. strict_eq (field a ''email'') (field b ''email'')) (read_accounts d') = Some acct
           \<and> field acct ''resetTokenHash'' = Some JNull
           \<and> field acct ''resetTokenExpiry'' = Some JNull
           \<and> field acct ''passwordSalt'' = Some (JStr (random_hex e))
           \<and> map_option JStr (hashPassword rt (field b ''newPassword'') (Some (JStr (random_hex e))))
               = field acct ''passwordHash'')
     \<and> completeReset rt e2 d' (Some b2) = (d', error_json 400 ''no reset requested'')"
proof -
  let ?P = "\<lambda>a. strict_eq (field a ''email'') (field b ''email'')"
  from completeReset_ok [OF assms(1,2)] obtain acct h where
    em: "truthy (field b ''email'')"
    and f: "find ?P (read_accounts d) = Some acct"
    and h: "hashPassword rt (field b ''newPassword'') (Some (JStr (random_hex e))) = Some h"
    and d': "d' = Some (replace_first ?P
                      (set_field ''resetTokenExpiry'' JNull (set_field ''resetTokenHash'' JNull
                        (set_field ''passwordHash'' (JStr h)
                          (set_field ''passwordSalt'' (JStr (random_hex e)) acct))))
                      (read_accounts d))"
    by blast
  define acct' where "acct' = set_field ''resetTokenExpiry'' JNull (set_field ''resetTokenHash'' JNull
                        (set_field ''passwordHash'' (JStr h)
                          (set_field ''passwordSalt'' (JStr (random_hex e)) acct)))"
  have P: "?P acct" using find_SomeD [OF f] by simp
  have fields: "field acct' ''resetTokenHash'' = Some JNull"
    "field acct' ''resetTokenExpiry'' = Some JNull"
    "field acct' ''passwordSalt'' = Some (JStr (random_hex e))"
    "field acct' ''passwordHash'' = Some (JStr h)"
    "strict_eq (field acct' ''email'') (field b ''email'')"
    using P by (simp_all add: acct'_def field_set_field)
  have f': "find ?P (read_accounts d') = Some acct'"
    using find_replace_first [OF f, of acct'] fields(5)
    by (simp add: d' read_accounts_def acct'_def)
  have again: "completeReset rt e2 d' (Some b2) = (d', error_json 400 ''no reset requested'')"
    using completeReset_found [of b2 d' acct' rt e2] em assms(3-5) f' fields(1)
    by simp
  show ?thesis
    using f' fields h again by auto
qed

theorem reset_consumes_token_witness:
  "status (snd (completeReset demo_node (demo_env 1700000002000 ''8d'')
      (Some [alice_pending ''tok1'' 1700003600000]) (Some (alice_reset ''tok1'')))) = 200
   \<and> completeReset demo_node (demo_env 1700000003000 ''9e'')
       (fst (completeReset demo_node (demo_env 1700000002000 ''8d'')
          (Some [alice_pending ''tok1'' 1700003600000]) (Some (alice_reset ''tok1''))))
       (Some (alice_reset ''tok1''))
     = (fst (completeReset demo_node (demo_env 1700000002000 ''8d'')
          (Some [alice_pending ''tok1'' 1700003600000]) (Some (alice_reset ''tok1''))),
        \<lparr>status = 400, body = Json [(''error'', JStr ''no reset requested'')]\<rparr>)"
proof -
  have ok: "status \<lparr>status = 200, body = Json [(''message'', JStr ''password updated'')]\<rparr> = 200"
    by simp
  have b: "truthy (field (alice_reset ''tok1'') ''token'')"
    "truthy (field (alice_reset ''tok1'') ''newPassword'')"
    by (simp_all add: alice_reset_def field_def)
  show ?thesis
    using reset_consumes_token [OF alice_complete ok refl b, of "demo_env 1700000003000 ''9e''"]
    by (simp add: alice_complete error_json_def)
qed

lemma requestReset_found:
  assumes "truthy (field b ''email'')"
    and "find (\<lambda>a. strict_eq (field a ''email'') (field b ''email'')) (read_accounts d) = Some acct"
  shows "requestReset rt e d (Some b) =
     (Some (replace_first (\<lambda>a. strict_eq (field a ''email'') (field b ''email''))
        (set_field ''resetTokenExpiry'' (JNum (int (now e) + 3600000))
           (set_field ''resetTokenHash'' (JStr (sha256 rt (random_hex e))) acct))
        (read_accounts d)),
      \<lparr>status = 200, body = Json [(''message'', JStr ''reset token generated (demo)''),
                                (''token'', JStr (random_hex e))]\<rparr>)"
  using assms unfolding requestReset_def Let_def by (simp add: writeJSON_def)

lemma requestReset_ok:
  assumes run: "requestReset rt e d (Some b) = (d', r)" and ok: "status r = 200"
  shows "truthy (field b ''email'')
     \<and> (\<exists>acct. find (\<lambda>a. strict_eq (field a ''email'') (field b ''email'')) (read_accounts d) = Some acct)"
proof -
  have present: "truthy (field b ''email'')"
  proof (rule ccontr)
    assume "\<not> ?thesis"
    then have "requestReset rt e d (Some b) = (d, error_json 400 ''email required'')"
      by (auto simp: requestReset_def Let_def)
    with run ok show False by (auto simp: error_json_def)
  qed
  have "find (\<lambda>a. strict_eq (field a ''email'') (field b ''email'')) (read_accounts d) \<noteq> None"
  proof
    assume "find (\<lambda>a. strict_eq (field a ''email'') (field b ''email'')) (read_accounts d) = None"
    with present have "requestReset rt e d (Some b) = (d, error_json 404 ''not found'')"
      by (simp add: requestReset_def Let_def)
    with run ok show False by (auto simp: error_json_def)
  qed
  with present show ?thesis by auto
qed

text \<open>
  C10. Two reset requests for the same email, the second on the store the first wrote.
  The second answers 200 with its own token, and the account then holds the digest of
  that token and the expiry one hour after the second request. A completion with the
  token of the first request, whose digest differs from that of the second, is
  answered 400 and writes nothing: \<open>invalid token\<close> up to the new expiry, and
  \<open>token expired\<close> after it, the expiry being tested first.
\<close>

theorem newer_reset_token_replaces_older:
  assumes "requestReset rt e1 d0 (Some b) = (d1, r1)" and "status r1 = 200"
    and "requestReset rt e2 d1 (Some b) = (d2, r2)"
    and "sha256 rt (random_hex e1) \<noteq> sha256 rt (random_hex e2)"
    and "sha256 rt (random_hex e2) \<noteq> []" and "random_hex e1 \<noteq> []"
    and "field b3 ''email'' = field b ''email''"
    and "field b3 ''token'' = Some (JStr (random_hex e1))"
    and "truthy (field b3 ''newPassword'')"
  shows "status r2 = 200 \<and> body_field (body r2) ''token'' = Some (JStr (random_hex e2))
     \<and> (\<exists>acct. find (\<lambda>a. strict_eq (field a ''email'') (field b ''email'')) (read_accounts d2) = Some acct
           \<and> field acct ''resetTokenHash'' = Some (JStr (sha256 rt (random_hex e2)))
           \<and> field acct ''resetTokenExpiry'' = Some (JNum (int (now e2) + 3600000)))
     \<and> completeReset rt e3 d2 (Some b3) =
         (d2, error_json 400 (if int (now e2) + 3600000 < int (now e3) then ''token expired''
                              else ''invalid token''))"
proof -
  let ?P = "\<lambda>a. strict_eq (field a ''email'') (field b ''email'')"
  from requestReset_ok [OF assms(1,2)] obtain acct0 where
    em: "truthy (field b ''email'')" and f0: "find ?P (read_accounts d0) = Some acct0"
    by blast
  define acct1 where "acct1 = set_field ''resetTokenExpiry'' (JNum (int (now e1) + 3600000))
           (set_field ''resetTokenHash'' (JStr (sha256 rt (random_hex e1))) acct0)"
  have P0: "?P acct0" using find_SomeD [OF f0] by simp
  then have P1: "?P acct1" by (simp add: acct1_def field_set_field)
  have d1: "d1 = Some (replace_first ?P acct1 (read_accounts d0))"
    using requestReset_found [OF em f0, of rt e1] assms(1) by (simp add: acct1_def)
  have f1: "find ?P (read_accounts d1) = Some acct1"
    using f0 P1 d1 by (rule find_written)
  define acct2 where "acct2 = set_field ''resetTokenExpiry'' (JNum (int (now e2) + 3600000))
           (set_field ''resetTokenHash'' (JStr (sha256 rt (random_hex e2))) acct1)"
  have fields: "field acct2 ''resetTokenHash'' = Some (JStr (sha256 rt (random_hex e2)))"
    "field acct2 ''resetTokenExpiry'' = Some (JNum (int (now e2) + 3600000))"
    "strict_eq (field acct2 ''email'') (field b ''email'')"
    using P1 by (simp_all add: acct2_def field_set_field)
  have eq2: "requestReset rt e2 d1 (Some b) =
     (Some (replace_first ?P acct2 (read_accounts d1)),
      \<lparr>status = 200, body = Json [(''message'', JStr ''reset token generated (demo)''),
                                (''token'', JStr (random_hex e2))]\<rparr>)"
    using requestReset_found [OF em f1, of rt e2] by (simp add: acct2_def)
  with assms(3) have d2: "d2 = Some (replace_first ?P acct2 (read_accounts d1))"
    and r2: "r2 = \<lparr>status = 200, body = Json [(''message'', JStr ''reset token generated (demo)''),
                                (''token'', JStr (random_hex e2))]\<rparr>"
    by simp_all
  have f2: "find ?P (read_accounts d2) = Some acct2"
    using f1 fields(3) d2 by (rule find_written)
  have b3: "truthy (field b3 ''email'')" "truthy (field b3 ''token'')"
    using em assms(6-8) by simp_all
  have f3: "find (\<lambda>a. strict_eq (field a ''email'') (field b3 ''email'')) (read_accounts d2) = Some acct2"
    using f2 assms(7) by simp
  have last: "completeReset rt e3 d2 (Some b3) =
         (d2, error_json 400 (if int (now e2) + 3600000 < int (now e3) then ''token expired''
                              else ''invalid token''))"
    using completeReset_found [OF b3 assms(9) f3, of rt e3] fields(1,2) assms(4,5,8)
    by (simp add: now_after_def sha256_hex_def)
  show ?thesis
    using r2 f2 fields last by (simp add: body_field_def field_def)
qed

theorem newer_reset_token_replaces_older_witness:
  "requestReset demo_node (demo_env 1700000001000 ''tok2'') (Some [alice_pending ''tok1'' 1700003600000])
      (Some alice_email)
    = (Some [alice_pending ''tok2'' 1700003601000],
       \<lparr>status = 200, body = Json [(''message'', JStr ''reset token generated (demo)''),
                                 (''token'', JStr ''tok2'')]\<rparr>)
   \<and> completeReset demo_node (demo_env 1700000002000 ''8d'') (Some [alice_pending ''tok2'' 1700003601000])
       (Some (alice_reset ''tok1''))
    = (Some [alice_pending ''tok2'' 1700003601000],
       \<lparr>status = 400, body = Json [(''error'', JStr ''invalid token'')]\<rparr>)
   \<and> completeReset demo_node (demo_env 1700003601001 ''8d'') (Some [alice_pending ''tok2'' 1700003601000])
       (Some (alice_reset ''tok1''))
    = (Some [alice_pending ''tok2'' 1700003601000],
       \<lparr>status = 400, body = Json [(''error'', JStr ''token expired'')]\<rparr>)"
proof -
  have ok: "status \<lparr>status = 200, body = Json [(''message'', JStr ''reset token generated (demo)''),
                                 (''token'', JStr ''tok1'')]\<rparr> = 200"
    by simp
  have differ: "sha256 demo_node (random_hex (demo_env 1700000000000 ''tok1''))
      \<noteq> sha256 demo_node (random_hex (demo_env 1700000001000 ''tok2''))"
    "sha256 demo_node (random_hex (demo_env 1700000001000 ''tok2'')) \<noteq> []"
    "random_hex (demo_env 1700000000000 ''tok1'') \<noteq> []"
    by (simp_all add: demo_node_def demo_env_sel)
  have b3: "field (alice_reset ''tok1'') ''email'' = field alice_email ''email''"
    "field (alice_reset ''tok1'') ''token'' = Some (JStr (random_hex (demo_env 1700000000000 ''tok1'')))"
    "truthy (field (alice_reset ''tok1'') ''newPassword'')"
    by (simp_all add: alice_reset_def alice_email_def field_def demo_env_sel)
  note w = newer_reset_token_replaces_older [OF alice_request_1 ok alice_request_2 differ b3]
  show ?thesis
    using w [of "demo_env 1700000002000 ''8d''"] w [of "demo_env 1700003601001 ''8d''"]
    by (simp add: alice_request_2 error_json_def demo_env_sel)
qed

section \<open>The pairing of the reset fields\<close>

lemma reset_paired_set_other:
  "k \<noteq> ''resetTokenHash'' \<Longrightarrow> k \<noteq> ''resetTokenExpiry'' \<Longrightarrow>
   reset_paired (set_field k v a) = reset_paired a"
  by (simp add: reset_paired_def field_set_field)

lemma reset_paired_set_both:
  "v \<noteq> JNull \<Longrightarrow> w \<noteq> JNull \<Longrightarrow>
   reset_paired (set_field ''resetTokenExpiry'' w (set_field ''resetTokenHash'' v a))"
  "reset_paired (set_field ''resetTokenExpiry'' JNull (set_field ''resetTokenHash'' JNull a))"
  by (simp_all add: reset_paired_def field_set_field unset_def)

lemma paired_replace:
  assumes "\<forall>a \<in> set (read_accounts d). reset_paired a" and "reset_paired y"
  shows "\<forall>a \<in> set (read_accounts (Some (replace_first P y (read_accounts d)))). reset_paired a"
  using assms set_replace_first [of P y "read_accounts d"]
  by (auto simp: read_accounts_def)

lemma signup_shape:
  "fst (signup rt e d req) = d
   \<or> (\<exists>acct. field acct ''resetTokenHash'' = Some JNull \<and> field acct ''resetTokenExpiry'' = Some JNull
         \<and> fst (signup rt e d req) = Some (read_accounts d @ [acct]))"
proof (cases "status (snd (signup rt e d req)) = 201")
  case True
  then obtain b where b: "req = Some b"
    by (cases req) (auto simp: signup_def)
  have "signup rt e d (Some b) = (fst (signup rt e d (Some b)), snd (signup rt e d (Some b)))"
    by simp
  from signup_created [OF this] True b show ?thesis by blast
next
  case False
  with signup_unchanged_or_created [of rt e d req] show ?thesis by simp
qed

lemma login_shape:
  "fst (login rt e d req) = d
   \<or> (\<exists>b acct h s. req = Some b
         \<and> find (\<lambda>a. strict_eq (field a ''email'') (field b ''email'')) (read_accounts d) = Some acct
         \<and> fst (login rt e d req) = Some (replace_first (\<lambda>a. strict_eq (field a ''email'') (field b ''email''))
              (set_field ''passwordHash'' h (set_field ''passwordSalt'' s acct)) (read_accounts d)))"
  unfolding login_def Let_def writeJSON_def
  by (simp split: option.split; blast)

lemma update_shape:
  "fst (update_account d req) = d
   \<or> (\<exists>b acct. req = Some b
         \<and> find (\<lambda>a. strict_eq (field a ''id'') (field b ''id'')) (read_accounts d) = Some acct
         \<and> fst (update_account d req) = Some (replace_first (\<lambda>a. strict_eq (field a ''id'') (field b ''id''))
              (case field b ''description'' of
                 Some (JStr s) \<Rightarrow> set_field ''description'' (JStr s)
                    (case field b ''name'' of Some (JStr s) \<Rightarrow> set_field ''name'' (JStr s) acct
                     | _ \<Rightarrow> acct)
               | _ \<Rightarrow> (case field b ''name'' of Some (JStr s) \<Rightarrow> set_field ''name'' (JStr s) acct
                     | _ \<Rightarrow> acct))
              (read_accounts d)))"
proof (cases req)
  case None
  then show ?thesis by (simp add: update_account_def)
next
  case (Some b)
  show ?thesis
  proof (cases "truthy (field b ''id'')")
    case False
    with Some show ?thesis by (simp add: update_account_def Let_def)
  next
    case True
    show ?thesis
    proof (cases "find (\<lambda>a. strict_eq (field a ''id'') (field b ''id'')) (read_accounts d)")
      case None
      with Some True show ?thesis by (simp add: update_account_def Let_def)
    next
      case (Some acct)
      with \<open>req = Some b\<close> True show ?thesis
        unfolding update_account_def Let_def writeJSON_def by simp
    qed
  qed
qed

lemma reset_paired_updated:
  "reset_paired (case field b ''description'' of
                 Some (JStr s) \<Rightarrow> set_field ''description'' (JStr s)
                    (case field b ''name'' of Some (JStr s) \<Rightarrow> set_field ''name'' (JStr s) acct
                     | _ \<Rightarrow> acct)
               | _ \<Rightarrow> (case field b ''name'' of Some (JStr s) \<Rightarrow> set_field ''name'' (JStr s) acct
                     | _ \<Rightarrow> acct)) = reset_paired acct"
  by (simp add: reset_paired_set_other split: option.split json.split)

lemma requestReset_shape:
  "fst (requestReset rt e d req) = d
   \<or> (\<exists>b acct h n. req = Some b
         \<and> find (\<lambda>a. strict_eq (field a ''email'') (field b ''email'')) (read_accounts d) = Some acct
         \<and> fst (requestReset rt e d req) = Some (replace_first (\<lambda>a. strict_eq (field a ''email'') (field b ''email''))
              (set_field ''resetTokenExpiry'' (JNum n) (set_field ''resetTokenHash'' (JStr h) acct))
              (read_accounts d)))"
  unfolding requestReset_def Let_def writeJSON_def
  by (simp split: option.split; blast)

lemma completeReset_shape:
  "fst (completeReset rt e d req) = d
   \<or> (\<exists>b acct h s. req = Some b
         \<and> find (\<lambda>a. strict_eq (field a ''email'') (field b ''email'')) (read_accounts d) = Some acct
         \<and> fst (completeReset rt e d req) = Some (replace_first (\<lambda>a. strict_eq (field a ''email'') (field b ''email''))
              (set_field ''resetTokenExpiry'' JNull (set_field ''resetTokenHash'' JNull
                 (set_field ''passwordHash'' h (set_field ''passwordSalt'' s acct))))
              (read_accounts d)))"
  unfolding completeReset_def Let_def writeJSON_def
  by (simp split: option.split; blast)

text \<open>Every request leaves the pairing as it finds it.\<close>

lemma handle_preserves:
  assumes "\<forall>a \<in> set (read_accounts d). reset_paired a"
  shows "\<forall>a \<in> set (read_accounts (fst (handle rt e q d))). reset_paired a"
proof (cases q)
  case (Signup req)
  from signup_shape [of rt e d req] show ?thesis
  proof
    assume "fst (signup rt e d req) = d"
    with assms Signup show ?thesis by simp
  next
    assume "\<exists>acct. field acct ''resetTokenHash'' = Some JNull
        \<and> field acct ''resetTokenExpiry'' = Some JNull
        \<and> fst (signup rt e d req) = Some (read_accounts d @ [acct])"
    then obtain acct where "field acct ''resetTokenHash'' = Some JNull"
      "field acct ''resetTokenExpiry'' = Some JNull"
      "fst (signup rt e d req) = Some (read_accounts d @ [acct])"
      by blast
    with assms Signup show ?thesis
      by (auto simp: reset_paired_def read_accounts_def)
  qed
next
  case (Login req)
  from login_shape [of rt e d req] show ?thesis
  proof
    assume "fst (login rt e d req) = d"
    with assms Login show ?thesis by simp
  next
    assume "\<exists>b acct h s. req = Some b
         \<and> find (\<lambda>a. strict_eq (field a ''email'') (field b ''email'')) (read_accounts d) = Some acct
         \<and> fst (login rt e d req) = Some (replace_first (\<lambda>a. strict_eq (field a ''email'') (field b ''email''))
              (set_field ''passwordHash'' h (set_field ''passwordSalt'' s acct)) (read_accounts d))"
    then obtain b acct h s where
      f: "find (\<lambda>a. strict_eq (field a ''email'') (field b ''email'')) (read_accounts d) = Some acct"
      and w: "fst (login rt e d req) = Some (replace_first (\<lambda>a. strict_eq (field a ''email'') (field b ''email''))
              (set_field ''passwordHash'' h (set_field ''passwordSalt'' s acct)) (read_accounts d))"
      by blast
    from find_SomeD [OF f] assms have "reset_paired acct" by blast
    then have "reset_paired (set_field ''passwordHash'' h (set_field ''passwordSalt'' s acct))"
      by (simp add: reset_paired_set_other)
    from paired_replace [OF assms this] w Login show ?thesis by simp
  qed
next
  case (Update req)
  from update_shape [of d req] show ?thesis
  proof
    assume "fst (update_account d req) = d"
    with assms Update show ?thesis by simp
  next
    assume "\<exists>b acct. req = Some b
         \<and> find (\<lambda>a. strict_eq (field a ''id'') (field b ''id'')) (read_accounts d) = Some acct
         \<and> fst (update_account d req) = Some (replace_first (\<lambda>a. strict_eq (field a ''id'') (field b ''id''))
              (case field b ''description'' of
                 Some (JStr s) \<Rightarrow> set_field ''description'' (JStr s)
                    (case field b ''name'' of Some (JStr s) \<Rightarrow> set_field ''name'' (JStr s) acct
                     | _ \<Rightarrow> acct)
               | _ \<Rightarrow> (case field b ''name'' of Some (JStr s) \<Rightarrow> set_field ''name'' (JStr s) acct
                     | _ \<Rightarrow> acct))
              (read_accounts d))"
    then obtain b acct where
      f: "find (\<lambda>a. strict_eq (field a ''id'') (field b ''id'')) (read_accounts d) = Some acct"
      and w: "fst (update_account d req) = Some (replace_first (\<lambda>a. strict_eq (field a ''id'') (field b ''id''))
              (case field b ''description'' of
                 Some (JStr s) \<Rightarrow> set_field ''description'' (JStr s)
                    (case field b ''name'' of Some (JStr s) \<Rightarrow> set_field ''name'' (JStr s) acct
                     | _ \<Rightarrow> acct)
               | _ \<Rightarrow> (case field b ''name'' of Some (JStr s) \<Rightarrow> set_field ''name'' (JStr s) acct
                     | _ \<Rightarrow> acct))
              (read_accounts d))"
      by blast
    from find_SomeD [OF f] assms have "reset_paired acct" by blast
    then have "reset_paired (case field b ''description'' of
                 Some (JStr s) \<Rightarrow> set_field ''description'' (JStr s)
                    (case field b ''name'' of Some (JStr s) \<Rightarrow> set_field ''name'' (JStr s) acct
                     | _ \<Rightarrow> acct)
               | _ \<Rightarrow> (case field b ''name'' of Some (JStr s) \<Rightarrow> set_field ''name'' (JStr s) acct
                     | _ \<Rightarrow> acct))"
      by (simp only: reset_paired_updated)
    from paired_replace [OF assms this] w Update show ?thesis by simp
  qed
next
  case (RequestReset req)
  from requestReset_shape [of rt e d req] show ?thesis
  proof
    assume "fst (requestReset rt e d req) = d"
    with assms RequestReset show ?thesis by simp
  next
    assume "\<exists>b acct h n. req = Some b
         \<and> find (\<lambda>a. strict_eq (field a ''email'') (field b ''email'')) (read_accounts d) = Some acct
         \<and> fst (requestReset rt e d req) = Some (replace_first (\<lambda>a. strict_eq (field a ''email'') (field b ''email''))
              (set_field ''resetTokenExpiry'' (JNum n) (set_field ''resetTokenHash'' (JStr h) acct))
              (read_accounts d))"
    then obtain b acct h n where
      w: "fst (requestReset rt e d req) = Some (replace_first (\<lambda>a. strict_eq (field a ''email'') (field b ''email''))
              (set_field ''resetTokenExpiry'' (JNum n) (set_field ''resetTokenHash'' (JStr h) acct))
              (read_accounts d))"
      by blast
    have "reset_paired (set_field ''resetTokenExpiry'' (JNum n) (set_field ''resetTokenHash'' (JStr h) acct))"
      by (simp add: reset_paired_set_both)
    from paired_replace [OF assms this] w RequestReset show ?thesis by simp
  qed
next
  case (CompleteReset req)
  from completeReset_shape [of rt e d req] show ?thesis
  proof
    assume "fst (completeReset rt e d req) = d"
    with assms CompleteReset show ?thesis by simp
  next
    assume "\<exists>b acct h s. req = Some b
         \<and> find (\<lambda>a. strict_eq (field a ''email'') (field b ''email'')) (read_accounts d) = Some acct
         \<and> fst (completeReset rt e d req) = Some (replace_first (\<lambda>a. strict_eq (field a ''email'') (field b ''email''))
              (set_field ''resetTokenExpiry'' JNull (set_field ''resetTokenHash'' JNull
                 (set_field ''passwordHash'' h (set_field ''passwordSalt'' s acct))))
              (read_accounts d))"
    then obtain b acct h s where
      w: "fst (completeReset rt e d req) = Some (replace_first (\<lambda>a. strict_eq (field a ''email'') (field b ''email''))
              (set_field ''resetTokenExpiry'' JNull (set_field ''resetTokenHash'' JNull
                 (set_field ''passwordHash'' h (set_field ''passwordSalt'' s acct))))
              (read_accounts d))"
      by blast
    have "reset_paired (set_field ''resetTokenExpiry'' JNull (set_field ''resetTokenHash'' JNull
                 (set_field ''passwordHash'' h (set_field ''passwordSalt'' s acct))))"
      by (rule reset_paired_set_both(2))
    from paired_replace [OF assms this] w CompleteReset show ?thesis by simp
  qed
qed

text \<open>
  C7. If in every account of the store the two reset fields are both unset (\<open>null\<close> or
  absent) or both set, then so they are in every account of the store after any
  sequence of signup, login, update, reset request and reset completion requests,
  whatever their bodies and the environments they are served in.
\<close>

theorem reset_fields_stay_paired:
  assumes "\<forall>a \<in> set (read_accounts d). reset_paired a"
  shows "\<forall>a \<in> set (read_accounts (run rt rs d)). reset_paired a"
  using assms
proof (induction rs arbitrary: d)
  case Nil
  then show ?case by simp
next
  case (Cons er rs)
  from handle_preserves [OF Cons.prems, of rt "fst er" "snd er"]
  have "\<forall>a \<in> set (read_accounts (fst (handle rt (fst er) (snd er) d))). reset_paired a" .
  from Cons.IH [OF this] show ?case by simp
qed

theorem reset_fields_stay_paired_witness:
  "run demo_node
     [(demo_env 1700000000000 ''5a'', Signup (Some alice)),
      (demo_env 1700000000000 ''tok1'', RequestReset (Some alice_email))] None
    = Some [alice_pending ''tok1'' 1700003600000]
   \<and> list_all reset_paired (read_accounts (run demo_node
     [(demo_env 1700000000000 ''5a'', Signup (Some alice)),
      (demo_env 1700000000000 ''tok1'', RequestReset (Some alice_email))] None))
   \<and> list_all reset_paired (read_accounts (run demo_node
     [(demo_env 1700000002000 ''8d'', CompleteReset (Some (alice_reset ''tok1'')))]
     (Some [alice_pending ''tok1'' 1700003600000])))"
proof -
  have start: "\<forall>a \<in> set (read_accounts None). reset_paired a"
    by (simp add: read_accounts_def)
  have pending: "\<forall>a \<in> set (read_accounts (Some [alice_pending ''tok1'' 1700003600000])). reset_paired a"
    by (simp add: read_accounts_def strict_eq_def reset_paired_def unset_def alice_pending_def field_def)
  have r: "run demo_node
     [(demo_env 1700000000000 ''5a'', Signup (Some alice)),
      (demo_env 1700000000000 ''tok1'', RequestReset (Some alice_email))] None
    = Some [alice_pending ''tok1'' 1700003600000]"
    by (simp add: alice_signup alice_request_1)
  show ?thesis
    using reset_fields_stay_paired [OF start, of demo_node
       "[(demo_env 1700000000000 ''5a'', Signup (Some alice)),
         (demo_env 1700000000000 ''tok1'', RequestReset (Some alice_email))]"]
      reset_fields_stay_paired [OF pending, of demo_node
       "[(demo_env 1700000002000 ''8d'', CompleteReset (Some (alice_reset ''tok1'')))]"]
    by (simp only: r list_all_iff simp_thms)
qed

end
